theory Spec2Isabelle
  imports Complex_Main "HOL-Library.AList"
begin

section \<open>Python values, exceptions and dictionaries\<close>

text \<open>
  The service of \<^verbatim>\<open>main.py\<close> works on Python numbers, strings and insertion-ordered
  dictionaries. Integers are unbounded (\<^typ>\<open>int\<close>). The floats of the machine are a type
  parameter \<open>'f\<close>: nothing is supposed of them, and what Python does with them is read from
  the runtime record below.
\<close>

datatype 'f pynum = PyInt int | PyFloat 'f

text \<open>
  The values an attribute of a customer can hold: a string, a number, a boolean, or some
  other object (a dictionary, a bound method, \<^verbatim>\<open>None\<close>) that cannot be added to a float.
\<close>

datatype 'f pyval = PStr string | PNum "'f pynum" | PBool bool | PObj

text \<open>
  The exceptions the code can meet. \<open>PulpError\<close> stands for whatever the optimisation
  library raises; the others are raised by the interpreter.
\<close>

datatype pyerror =
  AttributeError string | TypeError | KeyError string | OverflowError | PulpError string

text \<open>
  What the interpreter and the base class of the request models contribute, none of it part
  of the source:
  \<^item> \<open>fadd\<close> and \<open>fmul\<close>, the sum and the product of two floats, with the rounding of the
    machine;
  \<^item> \<open>fzero\<close>, the literal \<^verbatim>\<open>0.0\<close>;
  \<^item> \<open>float_of_int\<close>, the conversion that precedes the sum of an integer and a float, which
    rounds, and \<open>fits_float\<close>, false where that conversion raises \<^verbatim>\<open>OverflowError\<close>;
  \<^item> \<open>truthy\<close>, the truth value of a float in a condition;
  \<^item> \<open>float_eq_int\<close> and \<open>float_le_int\<close>, the comparisons \<^verbatim>\<open>x == i\<close> and \<^verbatim>\<open>x <= i\<close> of a
    float with an integer;
  \<^item> \<open>base_attr\<close>, the attributes that \<^verbatim>\<open>Customer\<close> inherits from \<^verbatim>\<open>BaseModel\<close>.
\<close>

record 'f runtime =
  fadd :: "'f \<Rightarrow> 'f \<Rightarrow> 'f"
  fmul :: "'f \<Rightarrow> 'f \<Rightarrow> 'f"
  fzero :: "'f"
  float_of_int :: "int \<Rightarrow> 'f"
  fits_float :: "int \<Rightarrow> bool"
  truthy :: "'f \<Rightarrow> bool"
  float_eq_int :: "'f \<Rightarrow> int \<Rightarrow> bool"
  float_le_int :: "'f \<Rightarrow> int \<Rightarrow> bool"
  base_attr :: "string \<Rightarrow> 'f pyval option"

text \<open>
  A \<^verbatim>\<open>dict\<close> keeps its keys in insertion order and the code iterates over them, so a
  dictionary is an association list with distinct keys. \<^const>\<open>AList.update\<close> is
  \<^verbatim>\<open>d[k] = v\<close>: it replaces the value in place when the key is present and appends the
  pair otherwise.
\<close>

type_synonym ('k, 'v) dict = "('k \<times> 'v) list"

definition dict_of :: "('k \<times> 'v) list \<Rightarrow> ('k, 'v) dict" where
  "dict_of kvs = fold (\<lambda>kv d. AList.update (fst kv) (snd kv) d) kvs []"

definition dict_keys :: "('k, 'v) dict \<Rightarrow> 'k list" where
  "dict_keys d = map fst d"

definition dict_values :: "('k, 'v) dict \<Rightarrow> 'v list" where
  "dict_values d = map snd d"

text \<open>\<^verbatim>\<open>m[a][b]\<close> read without raising: \<open>None\<close> where Python raises \<^verbatim>\<open>KeyError\<close>.\<close>

definition lookup2 :: "('a, ('b, 'v) dict) dict \<Rightarrow> 'a \<Rightarrow> 'b \<Rightarrow> 'v option" where
  "lookup2 m a b = (case map_of m a of None \<Rightarrow> None | Some row \<Rightarrow> map_of row b)"

text \<open>Python's \<^verbatim>\<open>str\<close> of an integer, as the f-string of the capacity row prints it.\<close>

fun digits :: "nat \<Rightarrow> string" where
  "digits n = (if n < 10 then [''0123456789'' ! n]
               else digits (n div 10) @ [''0123456789'' ! (n mod 10)])"

declare digits.simps [simp del]

definition str_int :: "int \<Rightarrow> string" where
  "str_int i = (if i < 0 then CHR ''-'' # digits (nat (- i)) else digits (nat i))"

section \<open>The request models\<close>

record ValidCombination =
  combination :: string
  description :: string
  capacity :: int
  cost :: int

record 'f Customer =
  client :: string
  Cleveland :: 'f
  Harrisburg :: 'f
  Chicago :: 'f
  Trenton :: 'f
  Louisville :: 'f
  demand :: int

record 'f Location =
  location :: string
  capacity :: int
  shippingCost :: 'f
  generalCost :: int

record 'f TransportationData =
  validCombinations :: "ValidCombination list"
  customers :: "'f Customer list"
  locations :: "'f Location list"

text \<open>
  \<^verbatim>\<open>getattr(customer, loc)\<close>: the seven fields that \<^verbatim>\<open>Customer\<close> declares, then whatever
  the base class provides under that name, and \<^verbatim>\<open>AttributeError\<close> when neither has it.
\<close>

definition getattr :: "'f runtime \<Rightarrow> 'f Customer \<Rightarrow> string \<Rightarrow> pyerror + 'f pyval" where
  "getattr rt customer name =
     (if name = ''client'' then Inr (PStr (client customer))
      else if name = ''Cleveland'' then Inr (PNum (PyFloat (Cleveland customer)))
      else if name = ''Harrisburg'' then Inr (PNum (PyFloat (Harrisburg customer)))
      else if name = ''Chicago'' then Inr (PNum (PyFloat (Chicago customer)))
      else if name = ''Trenton'' then Inr (PNum (PyFloat (Trenton customer)))
      else if name = ''Louisville'' then Inr (PNum (PyFloat (Louisville customer)))
      else if name = ''demand'' then Inr (PNum (PyInt (demand customer)))
      else (case base_attr rt name of
              None \<Rightarrow> Inl (AttributeError name)
            | Some v \<Rightarrow> Inr v))"

text \<open>The five location names for which \<^verbatim>\<open>Customer\<close> declares a cost.\<close>

definition cost_fields :: "string set" where
  "cost_fields = {''Cleveland'', ''Harrisburg'', ''Chicago'', ''Trenton'', ''Louisville''}"

text \<open>
  \<^verbatim>\<open>v + s\<close> for a float \<open>s\<close>: a float is added by the machine, an integer or a boolean is
  converted first (an integer beyond the range of the floats raises), anything else raises.
\<close>

fun add_float :: "'f runtime \<Rightarrow> 'f pyval \<Rightarrow> 'f \<Rightarrow> pyerror + 'f" where
  "add_float rt (PNum (PyFloat x)) s = Inr (fadd rt x s)"
| "add_float rt (PNum (PyInt i)) s =
     (if fits_float rt i then Inr (fadd rt (float_of_int rt i) s) else Inl OverflowError)"
| "add_float rt (PBool b) s = Inr (fadd rt (float_of_int rt (if b then 1 else 0)) s)"
| "add_float rt (PStr t) s = Inl TypeError"
| "add_float rt PObj s = Inl TypeError"

section \<open>The cost matrix\<close>

type_synonym 'f cost_matrix = "(string, (string, 'f) dict) dict"

definition fictitious :: string where
  "fictitious = ''Cliente fic.''"

text \<open>
  The right-hand side of line 59,
  \<^verbatim>\<open>getattr(customer, loc) + shipping_costs[loc]\<close>, in Python's evaluation order.
\<close>

definition adjusted_cost ::
  "'f runtime \<Rightarrow> 'f Customer \<Rightarrow> (string, 'f) dict \<Rightarrow> string \<Rightarrow> pyerror + 'f" where
  "adjusted_cost rt customer shipping_costs loc =
     (case getattr rt customer loc of
        Inl e \<Rightarrow> Inl e
      | Inr v \<Rightarrow>
          (case map_of shipping_costs loc of
             None \<Rightarrow> Inl (KeyError loc)
           | Some s \<Rightarrow> add_float rt v s))"

text \<open>\<^verbatim>\<open>cost_matrix[loc][name] = x\<close>.\<close>

definition set_item ::
  "'f cost_matrix \<Rightarrow> string \<Rightarrow> string \<Rightarrow> 'f \<Rightarrow> pyerror + 'f cost_matrix" where
  "set_item cost_matrix loc name x =
     (case map_of cost_matrix loc of
        None \<Rightarrow> Inl (KeyError loc)
      | Some row \<Rightarrow> Inr (AList.update loc (AList.update name x row) cost_matrix))"

text \<open>The inner loop of lines 57 to 59, for one customer over the keys \<open>locs\<close>.\<close>

fun fill_customer ::
  "'f runtime \<Rightarrow> 'f Customer \<Rightarrow> (string, 'f) dict \<Rightarrow> string list \<Rightarrow> 'f cost_matrix \<Rightarrow>
   pyerror + 'f cost_matrix" where
  "fill_customer rt customer shipping_costs [] cost_matrix = Inr cost_matrix"
| "fill_customer rt customer shipping_costs (loc # locs) cost_matrix =
     (case adjusted_cost rt customer shipping_costs loc of
        Inl e \<Rightarrow> Inl e
      | Inr x \<Rightarrow>
          (case set_item cost_matrix loc (client customer) x of
             Inl e \<Rightarrow> Inl e
           | Inr cost_matrix' \<Rightarrow> fill_customer rt customer shipping_costs locs cost_matrix'))"

text \<open>The outer loop of lines 55 to 59.\<close>

fun fill_costs ::
  "'f runtime \<Rightarrow> 'f Customer list \<Rightarrow> (string, 'f) dict \<Rightarrow> 'f cost_matrix \<Rightarrow>
   pyerror + 'f cost_matrix" where
  "fill_costs rt [] shipping_costs cost_matrix = Inr cost_matrix"
| "fill_costs rt (customer # rest) shipping_costs cost_matrix =
     (case fill_customer rt customer shipping_costs (dict_keys cost_matrix) cost_matrix of
        Inl e \<Rightarrow> Inl e
      | Inr cost_matrix' \<Rightarrow> fill_costs rt rest shipping_costs cost_matrix')"

text \<open>The loop of lines 62 and 63.\<close>

fun add_fictitious :: "'f runtime \<Rightarrow> string list \<Rightarrow> 'f cost_matrix \<Rightarrow> pyerror + 'f cost_matrix" where
  "add_fictitious rt [] cost_matrix = Inr cost_matrix"
| "add_fictitious rt (loc # locs) cost_matrix =
     (case set_item cost_matrix loc fictitious (fzero rt) of
        Inl e \<Rightarrow> Inl e
      | Inr cost_matrix' \<Rightarrow> add_fictitious rt locs cost_matrix')"

definition transform_data_to_cost_matrix ::
  "'f runtime \<Rightarrow> 'f Customer list \<Rightarrow> 'f Location list \<Rightarrow> pyerror + 'f cost_matrix" where
  "transform_data_to_cost_matrix rt custs locs =
     (let shipping_costs = dict_of (map (\<lambda>loc. (location loc, shippingCost loc)) locs);
          cost_matrix = dict_of (map (\<lambda>loc. (location loc, [])) locs)
      in case fill_costs rt custs shipping_costs cost_matrix of
           Inl e \<Rightarrow> Inl e
         | Inr cost_matrix' \<Rightarrow> add_fictitious rt (dict_keys cost_matrix') cost_matrix')"

section \<open>Supply, demand and balancing\<close>

text \<open>Lines 72 to 74 of \<^verbatim>\<open>solve_transportation\<close>.\<close>

definition oferta_of :: "'f Location list \<Rightarrow> (string, int) dict" where
  "oferta_of locs = dict_of (map (\<lambda>loc. (location loc, Location.capacity loc)) locs)"

definition demanda_of :: "'f Customer list \<Rightarrow> (string, int) dict" where
  "demanda_of custs = dict_of (map (\<lambda>customer. (client customer, demand customer)) custs)"

definition balance :: "(string, int) dict \<Rightarrow> (string, int) dict \<Rightarrow> (string, int) dict" where
  "balance oferta demanda =
     AList.update fictitious (sum_list (dict_values oferta) - sum_list (dict_values demanda)) demanda"

section \<open>The linear programme handed to the library\<close>

text \<open>
  Lines 77 to 98 build a \<^verbatim>\<open>pulp\<close> model and solve it. The library is not part of the
  source, so what it does with the model, from registering the constraints to running the
  numeric solver, is one parameter of \<open>solve_transportation\<close>: a function from the
  programme the code states to an exception or an outcome. The programme is recorded as the
  code states it: one variable per pair of a key of \<^verbatim>\<open>oferta\<close> and a key of
  \<^verbatim>\<open>demanda\<close> (lower bound 0), the objective terms, the named constraints.
\<close>

datatype lp_sense = LpLE | LpEQ

record lp_constraint =
  cname :: string
  lhs :: "(string \<times> string) list"
  sense :: lp_sense
  rhs :: int

record 'f lp_problem =
  variables :: "(string \<times> string) list"
  objective :: "((string \<times> string) \<times> 'f) list"
  constraints :: "lp_constraint list"

datatype lp_status = NotSolved | Optimal | Infeasible | Unbounded | Undefined

text \<open>The library's table \<^verbatim>\<open>LpStatus\<close> of status names.\<close>

fun LpStatus :: "lp_status \<Rightarrow> string" where
  "LpStatus NotSolved = ''Not Solved''"
| "LpStatus Optimal = ''Optimal''"
| "LpStatus Infeasible = ''Infeasible''"
| "LpStatus Unbounded = ''Unbounded''"
| "LpStatus Undefined = ''Undefined''"

text \<open>
  What the code reads back after \<^verbatim>\<open>modelo.solve()\<close>: the status, the value of each
  variable (\<open>None\<close> when the library left it unset) and the value of the objective
  (\<open>None\<close> when the library has none to give).
\<close>

record 'f lp_outcome =
  out_status :: lp_status
  value_of :: "string \<times> string \<Rightarrow> 'f option"
  objective_value :: "'f option"

type_synonym 'f lp_solver = "'f lp_problem \<Rightarrow> pyerror + 'f lp_outcome"

text \<open>\<^verbatim>\<open>costos[almacen][cliente]\<close>, with the \<^verbatim>\<open>KeyError\<close> of either subscript.\<close>

definition get_cost ::
  "'f cost_matrix \<Rightarrow> string \<times> string \<Rightarrow> pyerror + (string \<times> string) \<times> 'f" where
  "get_cost costos p =
     (case map_of costos (fst p) of
        None \<Rightarrow> Inl (KeyError (fst p))
      | Some row \<Rightarrow>
          (case map_of row (snd p) of
             None \<Rightarrow> Inl (KeyError (snd p))
           | Some k \<Rightarrow> Inr (p, k)))"

fun collect :: "(pyerror + 'a) list \<Rightarrow> pyerror + 'a list" where
  "collect [] = Inr []"
| "collect (x # xs) =
     (case x of
        Inl e \<Rightarrow> Inl e
      | Inr v \<Rightarrow> (case collect xs of Inl e \<Rightarrow> Inl e | Inr vs \<Rightarrow> Inr (v # vs)))"

definition supply_constraint :: "(string, int) dict \<Rightarrow> string \<times> int \<Rightarrow> lp_constraint" where
  "supply_constraint demanda kv =
     \<lparr>cname = ''Oferta_'' @ fst kv,
      lhs = map (\<lambda>cliente. (fst kv, cliente)) (dict_keys demanda),
      sense = LpLE, rhs = snd kv\<rparr>"

definition demand_constraint :: "(string, int) dict \<Rightarrow> string \<times> int \<Rightarrow> lp_constraint" where
  "demand_constraint oferta kv =
     \<lparr>cname = ''Demanda_'' @ fst kv,
      lhs = map (\<lambda>almacen. (almacen, fst kv)) (dict_keys oferta),
      sense = LpEQ, rhs = snd kv\<rparr>"

text \<open>
  Lines 80 to 95. The loops \<^verbatim>\<open>for almacen in oferta: ... oferta[almacen]\<close> run over the
  pairs of the dictionary, which is the same thing for distinct keys.
\<close>

definition build_problem ::
  "'f cost_matrix \<Rightarrow> (string, int) dict \<Rightarrow> (string, int) dict \<Rightarrow> pyerror + 'f lp_problem" where
  "build_problem costos oferta demanda =
     (let vars = List.product (dict_keys oferta) (dict_keys demanda)
      in case collect (map (get_cost costos) vars) of
           Inl e \<Rightarrow> Inl e
         | Inr terms \<Rightarrow>
             Inr \<lparr>variables = vars, objective = terms,
                  constraints = map (supply_constraint demanda) oferta
                                @ map (demand_constraint oferta) demanda\<rparr>)"

text \<open>Lines 71 to 95 together: the programme the handler states for a request.\<close>

definition posed_problem :: "'f runtime \<Rightarrow> 'f TransportationData \<Rightarrow> pyerror + 'f lp_problem" where
  "posed_problem rt data =
     (case transform_data_to_cost_matrix rt (customers data) (locations data) of
        Inl e \<Rightarrow> Inl e
      | Inr costos \<Rightarrow>
          build_problem costos (oferta_of (locations data))
            (balance (oferta_of (locations data)) (demanda_of (customers data))))"

section \<open>The response\<close>

type_synonym 'f row = "(string, 'f pyval) dict"

record 'f response =
  status :: string
  matrix :: "'f row list"
  total_cost :: "'f option"

text \<open>
  The handler turns every exception into \<^verbatim>\<open>HTTPException(status_code=500, detail=str(e))\<close>;
  the exception itself stands for its text.
\<close>

datatype failure = HTTPException nat pyerror

text \<open>\<^verbatim>\<open>value if value else 0\<close>: an unset variable and a zero both give the integer 0.\<close>

definition shipped :: "'f runtime \<Rightarrow> 'f lp_outcome \<Rightarrow> string \<Rightarrow> string \<Rightarrow> 'f pynum" where
  "shipped rt out almacen cliente =
     (case value_of out (almacen, cliente) of
        None \<Rightarrow> PyInt 0
      | Some v \<Rightarrow> if truthy rt v then PyFloat v else PyInt 0)"

text \<open>
  The sum of two numbers. An integer met here is a sum of integers 0, which every machine
  converts, so the conversion cannot raise.
\<close>

fun num_add :: "'f runtime \<Rightarrow> 'f pynum \<Rightarrow> 'f pynum \<Rightarrow> 'f pynum" where
  "num_add rt (PyInt a) (PyInt b) = PyInt (a + b)"
| "num_add rt (PyInt a) (PyFloat y) = PyFloat (fadd rt (float_of_int rt a) y)"
| "num_add rt (PyFloat x) (PyInt b) = PyFloat (fadd rt x (float_of_int rt b))"
| "num_add rt (PyFloat x) (PyFloat y) = PyFloat (fadd rt x y)"

text \<open>Lines 105 to 108: the cells of one customer's row and the running total.\<close>

fun client_cells ::
  "'f runtime \<Rightarrow> 'f lp_outcome \<Rightarrow> string \<Rightarrow> string list \<Rightarrow> 'f row \<times> 'f pynum \<Rightarrow>
   'f row \<times> 'f pynum" where
  "client_cells rt out cliente [] acc = acc"
| "client_cells rt out cliente (almacen # rest) acc =
     client_cells rt out cliente rest
       (AList.update almacen (PNum (shipped rt out almacen cliente)) (fst acc),
        num_add rt (snd acc) (shipped rt out almacen cliente))"

definition client_row :: "'f runtime \<Rightarrow> 'f lp_outcome \<Rightarrow> (string, int) dict \<Rightarrow> string \<Rightarrow> 'f row" where
  "client_row rt out oferta cliente =
     (let acc = client_cells rt out cliente (dict_keys oferta)
                  ([(''CLIENTE'', PStr cliente)], PyInt 0)
      in AList.update ''DEMANDA'' (PNum (snd acc)) (fst acc))"

text \<open>Lines 113 to 118: the capacity row and the running total of the capacities.\<close>

fun capacity_cells :: "(string, int) dict \<Rightarrow> 'f row \<times> int \<Rightarrow> 'f row \<times> int" where
  "capacity_cells [] acc = acc"
| "capacity_cells (kv # rest) acc =
     capacity_cells rest (AList.update (fst kv) (PNum (PyInt (snd kv))) (fst acc), snd acc + snd kv)"

definition capacity_row :: "(string, int) dict \<Rightarrow> (string, int) dict \<Rightarrow> 'f row" where
  "capacity_row oferta demanda =
     (let acc = capacity_cells oferta ([(''CLIENTE'', PStr ''CAPACIDAD'')], 0)
      in AList.update ''DEMANDA''
           (PStr (str_int (snd acc) @ '' / '' @ str_int (sum_list (dict_values demanda))))
           (fst acc))"

definition result_matrix ::
  "'f runtime \<Rightarrow> 'f lp_outcome \<Rightarrow> (string, int) dict \<Rightarrow> (string, int) dict \<Rightarrow> 'f row list" where
  "result_matrix rt out oferta demanda =
     map (client_row rt out oferta) (dict_keys demanda) @ [capacity_row oferta demanda]"

section \<open>The handler\<close>

definition solve_transportation ::
  "'f runtime \<Rightarrow> 'f lp_solver \<Rightarrow> 'f TransportationData \<Rightarrow> failure + 'f response" where
  "solve_transportation rt solver data =
     (case transform_data_to_cost_matrix rt (customers data) (locations data) of
        Inl e \<Rightarrow> Inl (HTTPException 500 e)
      | Inr costos \<Rightarrow>
          (let oferta = oferta_of (locations data);
               demanda = balance oferta (demanda_of (customers data))
           in case build_problem costos oferta demanda of
                Inl e \<Rightarrow> Inl (HTTPException 500 e)
              | Inr modelo \<Rightarrow>
                  (case solver modelo of
                     Inl e \<Rightarrow> Inl (HTTPException 500 e)
                   | Inr out \<Rightarrow>
                       Inr \<lparr>status = LpStatus (out_status out),
                            matrix = result_matrix rt out oferta demanda,
                            total_cost = objective_value out\<rparr>)))"

section \<open>Sums and constraints\<close>







section \<open>A sample runtime, sample requests and the outcomes of the library on them\<close>

text \<open>
  A runtime whose floats are the reals and whose arithmetic is exact. On the small whole
  numbers of the sample requests it computes what double precision computes. Of the base
  class it knows two attributes, a flag and a configuration dictionary.
\<close>

definition exact_runtime :: "real runtime" where
  "exact_runtime =
     \<lparr>fadd = (+), fmul = (*), fzero = 0, float_of_int = real_of_int,
      fits_float = (\<lambda>i. True), truthy = (\<lambda>x. x \<noteq> 0),
      float_eq_int = (\<lambda>x i. x = real_of_int i),
      float_le_int = (\<lambda>x i. x \<le> real_of_int i),
      base_attr = map_of [(''__pydantic_complete__'', PBool True), (''model_config'', PObj)]\<rparr>"

definition customer_of :: "string \<Rightarrow> real \<Rightarrow> int \<Rightarrow> real Customer" where
  "customer_of name c d =
     \<lparr>client = name, Cleveland = c, Harrisburg = c, Chicago = c, Trenton = c, Louisville = c,
      demand = d\<rparr>"

definition location_of :: "string \<Rightarrow> int \<Rightarrow> real \<Rightarrow> int \<Rightarrow> real Location" where
  "location_of name cap ship gen =
     \<lparr>location = name, capacity = cap, shippingCost = ship, generalCost = gen\<rparr>"

text \<open>
  A stand-in for the library that answers every programme with the same outcome. It runs the
  handler on a request with the outcome the library gives for that request.
\<close>

definition fixed_outcome :: "'f lp_outcome \<Rightarrow> 'f lp_solver" where
  "fixed_outcome out modelo = Inr out"

text \<open>One plant of capacity 10 and one customer, named like the fictitious one, who asks for 3.\<close>

definition clash_request :: "real TransportationData" where
  "clash_request =
     \<lparr>validCombinations = [],
      customers = [customer_of ''Cliente fic.'' 4 3],
      locations = [location_of ''Cleveland'' 10 1 0]\<rparr>"

text \<open>
  One plant of capacity 10 without shipping cost and one customer, named like the fictitious
  one, who pays nothing and asks for 5.
\<close>

definition coincide_request :: "real TransportationData" where
  "coincide_request =
     \<lparr>validCombinations = [],
      customers = [customer_of ''Cliente fic.'' 0 5],
      locations = [location_of ''Cleveland'' 10 0 0]\<rparr>"

text \<open>
  One plant of capacity 100 and one customer who asks for 80. The programme has a single
  feasible point: 80 units go to the customer and the remaining 20 to the fictitious
  customer, at cost 80 times 5.
\<close>

definition small_request :: "real TransportationData" where
  "small_request =
     \<lparr>validCombinations = [],
      customers = [customer_of ''Acme'' 4 80],
      locations = [location_of ''Cleveland'' 100 1 0]\<rparr>"

definition small_outcome :: "real lp_outcome" where
  "small_outcome =
     \<lparr>out_status = Optimal,
      value_of = map_of [((''Cleveland'', ''Acme''), 80), ((''Cleveland'', ''Cliente fic.''), 20)],
      objective_value = Some 400\<rparr>"

text \<open>
  \<open>small_request\<close> again, with a valid combination added and another general cost.
\<close>

definition small_request_variant :: "real TransportationData" where
  "small_request_variant =
     \<lparr>validCombinations =
        [\<lparr>combination = ''Cleveland-Acme'', description = ''direct'', capacity = 50, cost = 9\<rparr>],
      customers = [customer_of ''Acme'' 4 80],
      locations = [location_of ''Cleveland'' 100 1 7]\<rparr>"



text \<open>
  One plant of capacity 10 and one customer who asks for 30. The programme is infeasible.
  The library says so and leaves the values at which it stopped: 30 for the customer, the
  variable of the fictitious customer at its bound 0, objective 30 times 5.
\<close>

definition excess_request :: "real TransportationData" where
  "excess_request =
     \<lparr>validCombinations = [],
      customers = [customer_of ''Acme'' 4 30],
      locations = [location_of ''Cleveland'' 10 1 0]\<rparr>"

definition excess_outcome :: "real lp_outcome" where
  "excess_outcome =
     \<lparr>out_status = Infeasible,
      value_of = map_of [((''Cleveland'', ''Acme''), 30), ((''Cleveland'', ''Cliente fic.''), 0)],
      objective_value = Some 150\<rparr>"

section \<open>Dictionaries\<close>

lemma update_fresh: "k \<notin> fst ` set al \<Longrightarrow> AList.update k v al = al @ [(k, v)]"
  by (induction al) auto

lemma fold_update_distinct:
  "distinct (map fst (d @ kvs)) \<Longrightarrow>
   fold (\<lambda>kv d. AList.update (fst kv) (snd kv) d) kvs d = d @ kvs"
proof (induction kvs arbitrary: d)
  case Nil
  then show ?case by simp
next
  case (Cons kv kvs)
  have fresh: "fst kv \<notin> fst ` set d" using Cons.prems by auto
  have "distinct (map fst ((d @ [kv]) @ kvs))" using Cons.prems by simp
  from Cons.IH [OF this] show ?case by (simp add: update_fresh [OF fresh])
qed

lemma dict_of_distinct: "distinct (map fst kvs) \<Longrightarrow> dict_of kvs = kvs"
  using fold_update_distinct [of "[]" kvs] by (simp add: dict_of_def)

lemma fold_update_keys:
  "set (map fst (fold (\<lambda>kv d. AList.update (fst kv) (snd kv) d) kvs d)) = fst ` set d \<union> fst ` set kvs"
proof (induction kvs arbitrary: d)
  case Nil
  then show ?case by simp
next
  case (Cons kv kvs)
  have "fst ` set (AList.update (fst kv) (snd kv) d) = insert (fst kv) (fst ` set d)"
    by (simp add: dom_update)
  with Cons.IH [of "AList.update (fst kv) (snd kv) d"] show ?case by simp
qed

lemma dict_of_keys: "set (dict_keys (dict_of kvs)) = fst ` set kvs"
  using fold_update_keys [of kvs "[]"] by (simp add: dict_of_def dict_keys_def)

lemma fold_update_keys_distinct:
  "distinct (map fst d) \<Longrightarrow>
   distinct (map fst (fold (\<lambda>kv d. AList.update (fst kv) (snd kv) d) kvs d))"
  by (induction kvs arbitrary: d) (auto simp add: distinct_update)

lemma dict_of_keys_distinct: "distinct (dict_keys (dict_of kvs))"
  using fold_update_keys_distinct [of "[]" kvs] by (simp add: dict_of_def dict_keys_def)

lemma fold_update_key_list:
  "map fst (fold (\<lambda>kv d. AList.update (fst kv) (snd kv) d) (map (\<lambda>x. (f x, g x)) xs) d) =
   map fst (fold (\<lambda>kv d. AList.update (fst kv) (snd kv) d) (map (\<lambda>x. (f x, h x)) xs) d')"
  if "map fst d = map fst d'"
  using that by (induction xs arbitrary: d d') (auto simp add: update_keys)

lemma dict_of_same_keys:
  "dict_keys (dict_of (map (\<lambda>x. (f x, g x)) xs)) = dict_keys (dict_of (map (\<lambda>x. (f x, h x)) xs))"
  using fold_update_key_list [of "[]" "[]" f g xs h] by (simp add: dict_of_def dict_keys_def)

lemma sum_values_update:
  fixes al :: "('k \<times> int) list"
  shows "sum_list (map snd (AList.update k v al)) =
         sum_list (map snd al) - (case map_of al k of None \<Rightarrow> 0 | Some x \<Rightarrow> x) + v"
  by (induction al) auto

text \<open>The total of the balanced demand vector, whatever the names of the customers.\<close>

lemma balance_total:
  "sum_list (dict_values (balance oferta demanda)) =
   sum_list (dict_values oferta) - (case map_of demanda fictitious of None \<Rightarrow> 0 | Some d \<Rightarrow> d)"
  by (simp add: balance_def dict_values_def sum_values_update split: option.split)

lemma map_of_None_keys: "map_of al k = None \<longleftrightarrow> k \<notin> set (dict_keys al)"
  by (simp add: dict_keys_def map_of_eq_None_iff)

section \<open>The loops of the cost matrix\<close>

lemma set_item_Inr:
  assumes "set_item cm loc name x = Inr cm'"
  shows "dict_keys cm' = dict_keys cm"
    and "lookup2 cm' a b = (if a = loc \<and> b = name then Some x else lookup2 cm a b)"
proof -
  from assms obtain r where r: "map_of cm loc = Some r"
    and cm': "cm' = AList.update loc (AList.update name x r) cm"
    by (auto simp add: set_item_def split: option.splits)
  from r have "loc \<in> set (map fst cm)"
    by (metis map_of_eq_None_iff option.distinct(1) set_map)
  then show "dict_keys cm' = dict_keys cm"
    by (simp add: cm' dict_keys_def update_keys)
  show "lookup2 cm' a b = (if a = loc \<and> b = name then Some x else lookup2 cm a b)"
    by (simp add: cm' lookup2_def update_conv' r)
qed

lemma set_item_succeeds:
  "loc \<in> set (dict_keys cm) \<Longrightarrow> \<exists>cm'. set_item cm loc name x = Inr cm'"
  by (cases "map_of cm loc") (simp_all add: set_item_def map_of_None_keys)

lemma fill_customer_Inr:
  assumes "fill_customer rt c sc locs cm = Inr cm'"
  shows "dict_keys cm' = dict_keys cm"
    and "a \<in> set locs \<Longrightarrow>
         \<exists>x. adjusted_cost rt c sc a = Inr x \<and> lookup2 cm' a (client c) = Some x"
    and "a \<notin> set locs \<or> b \<noteq> client c \<Longrightarrow> lookup2 cm' a b = lookup2 cm a b"
  using assms
proof (induction locs arbitrary: cm a b)
  case Nil
  { case 1 then show ?case by simp
  next case 2 then show ?case by simp
  next case 3 then show ?case by simp }
next
  case (Cons loc locs)
  { case 1
    from 1 obtain x cm1 where x: "adjusted_cost rt c sc loc = Inr x"
      and cm1: "set_item cm loc (client c) x = Inr cm1"
      and rest: "fill_customer rt c sc locs cm1 = Inr cm'"
      by (auto split: sum.splits)
    from Cons.IH(1) [OF rest] set_item_Inr(1) [OF cm1] show ?case by simp
  next
    case 2
    from 2(2) obtain x cm1 where x: "adjusted_cost rt c sc loc = Inr x"
      and cm1: "set_item cm loc (client c) x = Inr cm1"
      and rest: "fill_customer rt c sc locs cm1 = Inr cm'"
      by (auto split: sum.splits)
    show ?case
    proof (cases "a \<in> set locs")
      case True
      from Cons.IH(2) [OF True rest] show ?thesis .
    next
      case False
      with 2(1) have a: "a = loc" by simp
      from False have "lookup2 cm' a (client c) = lookup2 cm1 a (client c)"
        using Cons.IH(3) [OF _ rest] by blast
      also have "\<dots> = Some x" using set_item_Inr(2) [OF cm1] a by simp
      finally show ?thesis using x a by simp
    qed
  next
    case 3
    from 3(2) obtain x cm1 where x: "adjusted_cost rt c sc loc = Inr x"
      and cm1: "set_item cm loc (client c) x = Inr cm1"
      and rest: "fill_customer rt c sc locs cm1 = Inr cm'"
      by (auto split: sum.splits)
    from 3(1) have "a \<notin> set locs \<or> b \<noteq> client c" by auto
    from Cons.IH(3) [OF this rest] have "lookup2 cm' a b = lookup2 cm1 a b" .
    also have "\<dots> = lookup2 cm a b" using set_item_Inr(2) [OF cm1] 3(1) by auto
    finally show ?case . }
qed

lemma fill_customer_succeeds:
  "set locs \<subseteq> set (dict_keys cm) \<Longrightarrow>
   (\<And>a. a \<in> set locs \<Longrightarrow> \<exists>x. adjusted_cost rt c sc a = Inr x) \<Longrightarrow>
   \<exists>cm'. fill_customer rt c sc locs cm = Inr cm'"
proof (induction locs arbitrary: cm)
  case Nil
  then show ?case by simp
next
  case (Cons loc locs)
  from Cons.prems(2) [of loc] obtain x where x: "adjusted_cost rt c sc loc = Inr x" by auto
  from Cons.prems(1) have "loc \<in> set (dict_keys cm)" by simp
  from set_item_succeeds [OF this] obtain cm1 where
    cm1: "set_item cm loc (client c) x = Inr cm1" by blast
  have "set locs \<subseteq> set (dict_keys cm1)"
    using Cons.prems(1) set_item_Inr(1) [OF cm1] by simp
  from Cons.IH [OF this] Cons.prems(2) obtain cm' where
    "fill_customer rt c sc locs cm1 = Inr cm'" by auto
  with x cm1 show ?case by simp
qed

lemma fill_costs_keys:
  "fill_costs rt cs sc cm = Inr cm' \<Longrightarrow> dict_keys cm' = dict_keys cm"
proof (induction cs arbitrary: cm)
  case Nil
  then show ?case by simp
next
  case (Cons c cs)
  from Cons.prems obtain cm1 where
    cm1: "fill_customer rt c sc (dict_keys cm) cm = Inr cm1"
    and rest: "fill_costs rt cs sc cm1 = Inr cm'"
    by (auto split: sum.splits)
  from Cons.IH [OF rest] fill_customer_Inr(1) [OF cm1] show ?case by simp
qed

lemma fill_costs_Inr:
  assumes "fill_costs rt cs sc cm = Inr cm'" and "distinct (map client cs)"
  shows "c \<in> set cs \<Longrightarrow> a \<in> set (dict_keys cm) \<Longrightarrow>
         \<exists>x. adjusted_cost rt c sc a = Inr x \<and> lookup2 cm' a (client c) = Some x"
    and "b \<notin> client ` set cs \<Longrightarrow> lookup2 cm' a b = lookup2 cm a b"
  using assms
proof (induction cs arbitrary: cm c a b)
  case Nil
  { case 1 then show ?case by simp
  next case 2 then show ?case by simp }
next
  case (Cons c0 cs)
  { case 1
    from 1(3) obtain cm1 where
      cm1: "fill_customer rt c0 sc (dict_keys cm) cm = Inr cm1"
      and rest: "fill_costs rt cs sc cm1 = Inr cm'"
      by (auto split: sum.splits)
    from 1(4) have d: "distinct (map client cs)" and fresh: "client c0 \<notin> client ` set cs"
      by auto
    have keys: "dict_keys cm1 = dict_keys cm" by (rule fill_customer_Inr(1) [OF cm1])
    show ?case
    proof (cases "c \<in> set cs")
      case True
      from Cons.IH(1) [OF True _ rest d] 1(2) keys show ?thesis by simp
    next
      case False
      with 1(1) have c: "c = c0" by simp
      have "lookup2 cm' a (client c0) = lookup2 cm1 a (client c0)"
        by (rule Cons.IH(2) [OF fresh rest d])
      with fill_customer_Inr(2) [OF cm1 1(2)] c show ?thesis by simp
    qed
  next
    case 2
    from 2(2) obtain cm1 where
      cm1: "fill_customer rt c0 sc (dict_keys cm) cm = Inr cm1"
      and rest: "fill_costs rt cs sc cm1 = Inr cm'"
      by (auto split: sum.splits)
    from 2(3) have d: "distinct (map client cs)" by simp
    from 2(1) have b: "b \<notin> client ` set cs" and b0: "b \<noteq> client c0" by auto
    have "lookup2 cm' a b = lookup2 cm1 a b" by (rule Cons.IH(2) [OF b rest d])
    also have "\<dots> = lookup2 cm a b" using fill_customer_Inr(3) [OF cm1] b0 by blast
    finally show ?case . }
qed

lemma fill_costs_succeeds:
  "(\<And>c a. c \<in> set cs \<Longrightarrow> a \<in> set (dict_keys cm) \<Longrightarrow> \<exists>x. adjusted_cost rt c sc a = Inr x) \<Longrightarrow>
   \<exists>cm'. fill_costs rt cs sc cm = Inr cm'"
proof (induction cs arbitrary: cm)
  case Nil
  then show ?case by simp
next
  case (Cons c cs)
  have "\<exists>cm1. fill_customer rt c sc (dict_keys cm) cm = Inr cm1"
    by (rule fill_customer_succeeds) (use Cons.prems in auto)
  then obtain cm1 where cm1: "fill_customer rt c sc (dict_keys cm) cm = Inr cm1" by blast
  have keys: "dict_keys cm1 = dict_keys cm" by (rule fill_customer_Inr(1) [OF cm1])
  have "\<exists>cm'. fill_costs rt cs sc cm1 = Inr cm'"
    by (rule Cons.IH) (use Cons.prems keys in auto)
  with cm1 show ?case by simp
qed

lemma add_fictitious_Inr:
  assumes "add_fictitious rt locs cm = Inr cm'"
  shows "dict_keys cm' = dict_keys cm"
    and "a \<in> set locs \<Longrightarrow> lookup2 cm' a fictitious = Some (fzero rt)"
    and "b \<noteq> fictitious \<Longrightarrow> lookup2 cm' a b = lookup2 cm a b"
  using assms
proof (induction locs arbitrary: cm a b)
  case Nil
  { case 1 then show ?case by simp
  next case 2 then show ?case by simp
  next case 3 then show ?case by simp }
next
  case (Cons loc locs)
  { case 1
    from 1 obtain cm1 where cm1: "set_item cm loc fictitious (fzero rt) = Inr cm1"
      and rest: "add_fictitious rt locs cm1 = Inr cm'"
      by (auto split: sum.splits)
    from Cons.IH(1) [OF rest] set_item_Inr(1) [OF cm1] show ?case by simp
  next
    case 2
    from 2(2) obtain cm1 where cm1: "set_item cm loc fictitious (fzero rt) = Inr cm1"
      and rest: "add_fictitious rt locs cm1 = Inr cm'"
      by (auto split: sum.splits)
    show ?case
    proof (cases "a \<in> set locs")
      case True
      from Cons.IH(2) [OF True rest] show ?thesis .
    next
      case False
      with 2(1) have a: "a = loc" by simp
      have "lookup2 cm1 a fictitious = Some (fzero rt)" using set_item_Inr(2) [OF cm1] a by simp
      moreover have "a \<notin> set locs \<Longrightarrow> lookup2 cm' a fictitious = lookup2 cm1 a fictitious"
        using rest
      proof (induction locs arbitrary: cm1)
        case Nil
        then show ?case by simp
      next
        case (Cons l ls)
        from Cons.prems(2) obtain cm2 where cm2: "set_item cm1 l fictitious (fzero rt) = Inr cm2"
          and rest2: "add_fictitious rt ls cm2 = Inr cm'"
          by (auto split: sum.splits)
        from Cons.prems(1) have "a \<notin> set ls" and "a \<noteq> l" by auto
        with Cons.IH [OF _ rest2] set_item_Inr(2) [OF cm2] show ?case by simp
      qed
      ultimately show ?thesis using False by simp
    qed
  next
    case 3
    from 3(2) obtain cm1 where cm1: "set_item cm loc fictitious (fzero rt) = Inr cm1"
      and rest: "add_fictitious rt locs cm1 = Inr cm'"
      by (auto split: sum.splits)
    from Cons.IH(3) [OF 3(1) rest] set_item_Inr(2) [OF cm1] 3(1) show ?case by simp }
qed

lemma add_fictitious_succeeds:
  "set locs \<subseteq> set (dict_keys cm) \<Longrightarrow> \<exists>cm'. add_fictitious rt locs cm = Inr cm'"
proof (induction locs arbitrary: cm)
  case Nil
  then show ?case by simp
next
  case (Cons loc locs)
  from Cons.prems have "loc \<in> set (dict_keys cm)" by simp
  from set_item_succeeds [OF this] obtain cm1 where
    cm1: "set_item cm loc fictitious (fzero rt) = Inr cm1" by blast
  have "set locs \<subseteq> set (dict_keys cm1)"
    using Cons.prems set_item_Inr(1) [OF cm1] by simp
  from Cons.IH [OF this] cm1 show ?case by auto
qed

section \<open>The cost matrix as a whole\<close>

lemma transform_Inr:
  assumes "transform_data_to_cost_matrix rt custs locs = Inr cm"
  obtains cm1 where
    "fill_costs rt custs (dict_of (map (\<lambda>loc. (location loc, shippingCost loc)) locs))
       (dict_of (map (\<lambda>loc. (location loc, [])) locs)) = Inr cm1"
    and "add_fictitious rt (dict_keys cm1) cm1 = Inr cm"
  using assms by (auto simp add: transform_data_to_cost_matrix_def Let_def split: sum.splits)

lemma transform_keys:
  fixes rt :: "'f runtime"
  assumes "transform_data_to_cost_matrix rt custs locs = Inr cm"
  shows "dict_keys cm = dict_keys (oferta_of locs)"
proof -
  from assms obtain cm1 where
    fill: "fill_costs rt custs (dict_of (map (\<lambda>loc. (location loc, shippingCost loc)) locs))
       (dict_of (map (\<lambda>loc. (location loc, [])) locs)) = Inr cm1"
    and fic: "add_fictitious rt (dict_keys cm1) cm1 = Inr cm"
    by (rule transform_Inr)
  have "dict_keys cm =
        dict_keys (dict_of (map (\<lambda>loc. (location loc, [] :: (string, 'f) dict)) locs))"
    using add_fictitious_Inr(1) [OF fic] fill_costs_keys [OF fill] by simp
  also have "\<dots> = dict_keys (oferta_of locs)"
    unfolding oferta_of_def by (rule dict_of_same_keys)
  finally show ?thesis .
qed

lemma oferta_keys: "set (dict_keys (oferta_of locs)) = location ` set locs"
  by (simp add: oferta_of_def dict_of_keys image_image)

lemma demanda_keys: "set (dict_keys (demanda_of custs)) = client ` set custs"
  by (simp add: demanda_of_def dict_of_keys image_image)

lemma transform_fictitious:
  fixes rt :: "'f runtime"
  assumes "transform_data_to_cost_matrix rt custs locs = Inr cm" and "l \<in> set locs"
  shows "lookup2 cm (location l) fictitious = Some (fzero rt)"
proof -
  from assms(1) obtain cm1 where
    fill: "fill_costs rt custs (dict_of (map (\<lambda>loc. (location loc, shippingCost loc)) locs))
       (dict_of (map (\<lambda>loc. (location loc, [])) locs)) = Inr cm1"
    and fic: "add_fictitious rt (dict_keys cm1) cm1 = Inr cm"
    by (rule transform_Inr)
  have "dict_keys cm1 = dict_keys cm" using add_fictitious_Inr(1) [OF fic] by simp
  then have "set (dict_keys cm1) = location ` set locs"
    using transform_keys [OF assms(1)] oferta_keys by simp
  with assms(2) have "location l \<in> set (dict_keys cm1)" by simp
  then show ?thesis by (rule add_fictitious_Inr(2) [OF fic])
qed

lemma getattr_cost_field:
  "name \<in> cost_fields \<Longrightarrow> \<exists>b. getattr rt c name = Inr (PNum (PyFloat b))"
  by (auto simp add: cost_fields_def getattr_def)

lemma adjusted_cost_field:
  assumes "name \<in> cost_fields" and "map_of sc name = Some s"
  shows "\<exists>b. getattr rt c name = Inr (PNum (PyFloat b)) \<and> adjusted_cost rt c sc name = Inr (fadd rt b s)"
proof -
  from getattr_cost_field [OF assms(1), of rt c]
  obtain b where "getattr rt c name = Inr (PNum (PyFloat b))"
    by auto
  with assms(2) show ?thesis by (simp add: adjusted_cost_def)
qed

text \<open>The construction cannot fail when every location is one of the five cost fields.\<close>

lemma transform_succeeds:
  fixes rt :: "'f runtime"
  assumes "\<And>l. l \<in> set locs \<Longrightarrow> location l \<in> cost_fields"
  shows "\<exists>cm. transform_data_to_cost_matrix rt custs locs = Inr cm"
proof -
  let ?sc = "dict_of (map (\<lambda>loc. (location loc, shippingCost loc)) locs)"
  let ?cm0 = "dict_of (map (\<lambda>loc. (location loc, [] :: (string, 'f) dict)) locs)"
  have keys0: "set (dict_keys ?cm0) = location ` set locs"
    by (simp add: dict_of_keys image_image)
  have keys_sc: "set (dict_keys ?sc) = location ` set locs"
    by (simp add: dict_of_keys image_image)
  have "\<exists>x. adjusted_cost rt c ?sc a = Inr x" if "a \<in> set (dict_keys ?cm0)" for c a
  proof -
    from that keys0 assms have field: "a \<in> cost_fields" by auto
    from that keys0 keys_sc have "map_of ?sc a \<noteq> None" by (simp add: map_of_None_keys)
    then obtain s where "map_of ?sc a = Some s" by blast
    from adjusted_cost_field [OF field this] show ?thesis by blast
  qed
  then have "\<exists>cm1. fill_costs rt custs ?sc ?cm0 = Inr cm1"
    by (intro fill_costs_succeeds) blast
  then obtain cm1 where cm1: "fill_costs rt custs ?sc ?cm0 = Inr cm1" by blast
  from add_fictitious_succeeds [of "dict_keys cm1" cm1] obtain cm where
    "add_fictitious rt (dict_keys cm1) cm1 = Inr cm" by auto
  with cm1 show ?thesis by (simp add: transform_data_to_cost_matrix_def Let_def)
qed

text \<open>
  Away from the name of the fictitious customer and from repeated identifiers the matrix is
  the one the comments of the builder describe. When the location identifiers are distinct
  and are cost fields of \<^verbatim>\<open>Customer\<close>, and the customer identifiers are distinct and none is
  the name of the fictitious customer, the builder returns a matrix whose keys are the
  locations in request order, whose entry for a location and a customer is the float sum of
  that customer's cost field for the location and the location's shipping cost, and whose
  entry for a location and the fictitious customer is \<^verbatim>\<open>0.0\<close>.
\<close>

lemma cost_matrix_entries:
  fixes rt :: "'f runtime"
  assumes fields: "\<forall>l\<in>set locs. location l \<in> cost_fields"
    and dl: "distinct (map location locs)"
    and dc: "distinct (map client custs)"
    and fresh: "fictitious \<notin> client ` set custs"
  shows "\<exists>cm. transform_data_to_cost_matrix rt custs locs = Inr cm \<and>
           dict_keys cm = map location locs \<and>
           (\<forall>l\<in>set locs.
              (\<forall>c\<in>set custs. \<exists>b. getattr rt c (location l) = Inr (PNum (PyFloat b)) \<and>
                 lookup2 cm (location l) (client c) = Some (fadd rt b (shippingCost l))) \<and>
              lookup2 cm (location l) fictitious = Some (fzero rt))"
proof -
  let ?sc = "dict_of (map (\<lambda>loc. (location loc, shippingCost loc)) locs)"
  let ?cm0 = "dict_of (map (\<lambda>loc. (location loc, [] :: (string, 'f) dict)) locs)"
  from fields transform_succeeds [of locs rt custs] obtain cm where
    cm: "transform_data_to_cost_matrix rt custs locs = Inr cm" by blast
  then obtain cm1 where fill: "fill_costs rt custs ?sc ?cm0 = Inr cm1"
    and fic: "add_fictitious rt (dict_keys cm1) cm1 = Inr cm"
    by (rule transform_Inr)
  have sc: "?sc = map (\<lambda>loc. (location loc, shippingCost loc)) locs"
    by (rule dict_of_distinct) (simp add: dl comp_def)
  have "oferta_of locs = map (\<lambda>loc. (location loc, Location.capacity loc)) locs"
    unfolding oferta_of_def by (rule dict_of_distinct) (simp add: dl comp_def)
  then have keys: "dict_keys cm = map location locs"
    using transform_keys [OF cm] by (simp add: dict_keys_def comp_def)
  have keys0: "set (dict_keys ?cm0) = location ` set locs"
    by (simp add: dict_of_keys image_image)
  have entry: "\<exists>b. getattr rt c (location l) = Inr (PNum (PyFloat b)) \<and>
                 lookup2 cm (location l) (client c) = Some (fadd rt b (shippingCost l))"
    if l: "l \<in> set locs" and c: "c \<in> set custs" for l c
  proof -
    from l keys0 have a: "location l \<in> set (dict_keys ?cm0)" by simp
    from fill_costs_Inr(1) [OF fill dc c a] obtain x where
      x: "adjusted_cost rt c ?sc (location l) = Inr x"
      and look: "lookup2 cm1 (location l) (client c) = Some x" by blast
    have "map_of ?sc (location l) = Some (shippingCost l)"
      unfolding sc by (rule map_of_is_SomeI) (use l dl in \<open>auto simp add: comp_def\<close>)
    with adjusted_cost_field [of "location l" ?sc "shippingCost l" rt c] fields l
    obtain b where b: "getattr rt c (location l) = Inr (PNum (PyFloat b))"
      and "adjusted_cost rt c ?sc (location l) = Inr (fadd rt b (shippingCost l))" by blast
    with x have "x = fadd rt b (shippingCost l)" by simp
    moreover from c fresh have "client c \<noteq> fictitious" by (metis image_eqI)
    then have "lookup2 cm (location l) (client c) = lookup2 cm1 (location l) (client c)"
      by (rule add_fictitious_Inr(3) [OF fic])
    ultimately show ?thesis using look b by simp
  qed
  from cm keys entry transform_fictitious [OF cm] show ?thesis by blast
qed

text \<open>
  C3. For every real customer and every location the matrix should hold the customer's cost
  for the location plus the location's shipping cost. The builder breaks this for a customer
  named like the fictitious one: the loop of lines 62 and 63, meant to add a client, writes
  \<^verbatim>\<open>0.0\<close> over the entry that line 59 stored. The customer below has cost 4 at Cleveland,
  whose shipping cost is 1; line 59 computes 5 for it and the matrix returned holds 0.
\<close>

theorem fictitious_clash_entry:
  "transform_data_to_cost_matrix exact_runtime (customers clash_request) (locations clash_request) =
     Inr [(''Cleveland'', [(''Cliente fic.'', 0)])] \<and>
   client (hd (customers clash_request)) = ''Cliente fic.'' \<and>
   getattr exact_runtime (hd (customers clash_request)) ''Cleveland'' = Inr (PNum (PyFloat 4)) \<and>
   shippingCost (hd (locations clash_request)) = 1 \<and>
   adjusted_cost exact_runtime (hd (customers clash_request)) [(''Cleveland'', 1)] ''Cleveland'' =
     Inr 5"
  by (simp add: clash_request_def customer_of_def location_of_def transform_data_to_cost_matrix_def dict_of_def
      dict_keys_def adjusted_cost_def getattr_def set_item_def fictitious_def exact_runtime_def)

text \<open>
  Repeated identifiers break the equation as well, since a dictionary keeps one entry for
  each: of two locations named alike the later shipping cost is used for both, and of two
  customers named alike the later cost is kept.
\<close>

lemma repeated_location_uses_last_shipping:
  "transform_data_to_cost_matrix exact_runtime [customer_of ''Acme'' 4 80]
     [location_of ''Cleveland'' 100 1 0, location_of ''Cleveland'' 50 2 0] =
     Inr [(''Cleveland'', [(''Acme'', 6), (''Cliente fic.'', 0)])]"
  by (simp add: customer_of_def location_of_def transform_data_to_cost_matrix_def dict_of_def
      dict_keys_def adjusted_cost_def getattr_def set_item_def fictitious_def exact_runtime_def)

lemma repeated_customer_keeps_last:
  "transform_data_to_cost_matrix exact_runtime
     [customer_of ''Acme'' 4 80, customer_of ''Acme'' 7 10]
     [location_of ''Cleveland'' 100 1 0] =
     Inr [(''Cleveland'', [(''Acme'', 8), (''Cliente fic.'', 0)])]"
  by (simp add: customer_of_def location_of_def transform_data_to_cost_matrix_def dict_of_def
      dict_keys_def adjusted_cost_def getattr_def set_item_def fictitious_def exact_runtime_def)

section \<open>Locations that are not cost fields\<close>

text \<open>
  With at least one customer, a location whose name is neither a cost field nor
  \<^verbatim>\<open>demand\<close> nor an attribute of the base class makes the construction raise.
\<close>

lemma adjusted_cost_unknown:
  "name \<notin> cost_fields \<Longrightarrow> name \<noteq> ''demand'' \<Longrightarrow> base_attr rt name = None \<Longrightarrow>
   \<exists>e. adjusted_cost rt c sc name = Inl e"
  by (auto simp add: cost_fields_def adjusted_cost_def getattr_def split: option.splits)

lemma transform_fails_unknown:
  fixes rt :: "'f runtime"
  assumes "custs \<noteq> []" and "l \<in> set locs"
    and "location l \<notin> cost_fields" and "location l \<noteq> ''demand''"
    and "base_attr rt (location l) = None"
  shows "\<exists>e. transform_data_to_cost_matrix rt custs locs = Inl e"
proof (cases "transform_data_to_cost_matrix rt custs locs")
  case (Inl e)
  then show ?thesis by blast
next
  case (Inr cm)
  let ?sc = "dict_of (map (\<lambda>loc. (location loc, shippingCost loc)) locs)"
  let ?cm0 = "dict_of (map (\<lambda>loc. (location loc, [] :: (string, 'f) dict)) locs)"
  from Inr obtain cm1 where fill: "fill_costs rt custs ?sc ?cm0 = Inr cm1"
    by (rule transform_Inr)
  from assms(1) obtain c cs where custs: "custs = c # cs" by (cases custs) auto
  with fill obtain cm2 where first: "fill_customer rt c ?sc (dict_keys ?cm0) ?cm0 = Inr cm2"
    by (auto split: sum.splits)
  have "location l \<in> set (dict_keys ?cm0)"
    using assms(2) by (simp add: dict_of_keys image_image)
  from fill_customer_Inr(2) [OF first this] obtain x where
    "adjusted_cost rt c ?sc (location l) = Inr x" by blast
  with adjusted_cost_unknown [OF assms(3,4,5), of c ?sc] show ?thesis by simp
qed

text \<open>
  C7. A location named \<^verbatim>\<open>demand\<close> is not one of the cost fields of \<^verbatim>\<open>Customer\<close>, yet the
  construction does not fail on it: \<^verbatim>\<open>getattr\<close> returns the customer's demand and line 59
  enters it as the cost (80 plus the shipping cost 1 below).
\<close>

theorem demand_location_accepted:
  "transform_data_to_cost_matrix exact_runtime
     [customer_of ''Acme'' 4 80] [location_of ''demand'' 100 1 0] =
     Inr [(''demand'', [(''Acme'', 81), (''Cliente fic.'', 0)])]"
  by (simp add: customer_of_def location_of_def transform_data_to_cost_matrix_def dict_of_def
      dict_keys_def adjusted_cost_def getattr_def set_item_def fictitious_def exact_runtime_def)

text \<open>
  The other names that are not cost fields: a name that neither \<^verbatim>\<open>Customer\<close> nor its base
  class has raises \<^verbatim>\<open>AttributeError\<close>; the field of the client's identifier and an inherited
  object raise \<^verbatim>\<open>TypeError\<close>; an inherited flag is accepted like \<^verbatim>\<open>demand\<close>, the true flag
  counting as 1.
\<close>

lemma unknown_location_raises:
  "transform_data_to_cost_matrix exact_runtime
     [customer_of ''Acme'' 4 80] [location_of ''Boston'' 100 1 0] =
     Inl (AttributeError ''Boston'')"
  by (simp add: customer_of_def location_of_def transform_data_to_cost_matrix_def dict_of_def
      dict_keys_def adjusted_cost_def getattr_def set_item_def fictitious_def exact_runtime_def)

lemma client_location_raises:
  "transform_data_to_cost_matrix exact_runtime
     [customer_of ''Acme'' 4 80] [location_of ''client'' 100 1 0] =
     Inl TypeError"
  by (simp add: customer_of_def location_of_def transform_data_to_cost_matrix_def dict_of_def
      dict_keys_def adjusted_cost_def getattr_def set_item_def fictitious_def exact_runtime_def)

lemma inherited_object_raises:
  "transform_data_to_cost_matrix exact_runtime
     [customer_of ''Acme'' 4 80] [location_of ''model_config'' 100 1 0] =
     Inl TypeError"
  by (simp add: customer_of_def location_of_def transform_data_to_cost_matrix_def dict_of_def
      dict_keys_def adjusted_cost_def getattr_def set_item_def fictitious_def exact_runtime_def)

lemma inherited_flag_accepted:
  "transform_data_to_cost_matrix exact_runtime
     [customer_of ''Acme'' 4 80] [location_of ''__pydantic_complete__'' 100 1 0] =
     Inr [(''__pydantic_complete__'', [(''Acme'', 2), (''Cliente fic.'', 0)])]"
  by (simp add: customer_of_def location_of_def transform_data_to_cost_matrix_def dict_of_def
      dict_keys_def adjusted_cost_def getattr_def set_item_def fictitious_def exact_runtime_def)

section \<open>Balancing\<close>

lemma balance_fictitious:
  "map_of (balance oferta demanda) fictitious =
     Some (sum_list (dict_values oferta) - sum_list (dict_values demanda))"
  by (simp add: balance_def update_conv')

text \<open>With distinct identifiers the totals of the two vectors are the sums over the request.\<close>

lemma oferta_total:
  "distinct (map location locs) \<Longrightarrow>
   sum_list (dict_values (oferta_of locs)) = sum_list (map Location.capacity locs)"
  by (simp add: oferta_of_def dict_of_distinct dict_values_def comp_def)

lemma demanda_total:
  "distinct (map client custs) \<Longrightarrow>
   sum_list (dict_values (demanda_of custs)) = sum_list (map demand custs)"
  by (simp add: demanda_of_def dict_of_distinct dict_values_def comp_def)

text \<open>
  When no customer of the request carries the name of the fictitious customer, line 74 adds
  an entry and the balanced demand vector has the total of the supply vector.
\<close>

lemma balanced_totals_agree:
  "fictitious \<notin> client ` set (customers data) \<Longrightarrow>
   sum_list (dict_values (balance (oferta_of (locations data)) (demanda_of (customers data)))) =
   sum_list (dict_values (oferta_of (locations data)))"
proof -
  assume fresh: "fictitious \<notin> client ` set (customers data)"
  have "set (dict_keys (demanda_of (customers data))) = client ` set (customers data)"
    by (rule demanda_keys)
  with fresh have "map_of (demanda_of (customers data)) fictitious = None"
    by (simp add: map_of_None_keys)
  then show ?thesis by (simp add: balance_total)
qed

text \<open>
  C8. After line 74 the demand vector, fictitious entry included, should have the total of
  the supply vector. The handler breaks this for a request with a customer named like the
  fictitious one: line 74, meant to add the entry that balances the vectors, replaces that
  customer's demand instead, and the total of the demand vector falls short of the supply
  by the demand replaced. Below the supply is 10, the customer asks for 3, and the balanced
  demand vector holds the single entry 7.
\<close>

theorem fictitious_clash_totals:
  "balance (oferta_of (locations clash_request)) (demanda_of (customers clash_request)) =
     [(''Cliente fic.'', 7)] \<and>
   sum_list (dict_values (balance (oferta_of (locations clash_request))
                                  (demanda_of (customers clash_request)))) = 7 \<and>
   sum_list (dict_values (oferta_of (locations clash_request))) = 10"
  by (simp add: clash_request_def customer_of_def location_of_def oferta_of_def demanda_of_def
      dict_of_def dict_values_def balance_def fictitious_def)

section \<open>The programme is always built\<close>

lemma fill_customer_defined:
  assumes "fill_customer rt c sc locs cm = Inr cm'" and "lookup2 cm a b \<noteq> None"
  shows "lookup2 cm' a b \<noteq> None"
proof (cases "a \<in> set locs \<and> b = client c")
  case True
  with fill_customer_Inr(2) [OF assms(1), of a] show ?thesis by auto
next
  case False
  then have "a \<notin> set locs \<or> b \<noteq> client c" by simp
  from fill_customer_Inr(3) [OF assms(1) this] assms(2) show ?thesis by simp
qed

lemma fill_costs_keeps_defined:
  "fill_costs rt cs sc cm = Inr cm' \<Longrightarrow> lookup2 cm a b \<noteq> None \<Longrightarrow> lookup2 cm' a b \<noteq> None"
proof (induction cs arbitrary: cm)
  case Nil
  then show ?case by simp
next
  case (Cons c cs)
  from Cons.prems(1) obtain cm1 where
    cm1: "fill_customer rt c sc (dict_keys cm) cm = Inr cm1"
    and rest: "fill_costs rt cs sc cm1 = Inr cm'"
    by (auto split: sum.splits)
  from fill_customer_defined [OF cm1 Cons.prems(2)] have "lookup2 cm1 a b \<noteq> None" .
  from Cons.IH [OF rest this] show ?case .
qed

lemma fill_costs_defined:
  "fill_costs rt cs sc cm = Inr cm' \<Longrightarrow> c \<in> set cs \<Longrightarrow> a \<in> set (dict_keys cm) \<Longrightarrow>
   lookup2 cm' a (client c) \<noteq> None"
proof (induction cs arbitrary: cm)
  case Nil
  then show ?case by simp
next
  case (Cons c0 cs)
  from Cons.prems(1) obtain cm1 where
    cm1: "fill_customer rt c0 sc (dict_keys cm) cm = Inr cm1"
    and rest: "fill_costs rt cs sc cm1 = Inr cm'"
    by (auto split: sum.splits)
  have keys: "dict_keys cm1 = dict_keys cm" by (rule fill_customer_Inr(1) [OF cm1])
  show ?case
  proof (cases "c = c0")
    case True
    from fill_customer_Inr(2) [OF cm1 Cons.prems(3)] True
    have "lookup2 cm1 a (client c) \<noteq> None" by auto
    from fill_costs_keeps_defined [OF rest this] show ?thesis .
  next
    case False
    with Cons.prems(2) have "c \<in> set cs" by simp
    from Cons.IH [OF rest this] Cons.prems(3) keys show ?thesis by simp
  qed
qed

lemma balance_keys:
  "set (dict_keys (balance oferta demanda)) = insert fictitious (set (dict_keys demanda))"
  by (simp add: balance_def dict_keys_def dom_update)

lemma balance_keys_distinct:
  "distinct (dict_keys demanda) \<Longrightarrow> distinct (dict_keys (balance oferta demanda))"
  by (simp add: balance_def dict_keys_def distinct_update)

lemma transform_defined:
  fixes rt :: "'f runtime"
  assumes cm: "transform_data_to_cost_matrix rt custs locs = Inr cm"
    and a: "a \<in> set (dict_keys (oferta_of locs))"
    and b: "b \<in> set (dict_keys (balance oferta (demanda_of custs)))"
  shows "lookup2 cm a b \<noteq> None"
proof -
  let ?sc = "dict_of (map (\<lambda>loc. (location loc, shippingCost loc)) locs)"
  let ?cm0 = "dict_of (map (\<lambda>loc. (location loc, [] :: (string, 'f) dict)) locs)"
  from cm obtain cm1 where fill: "fill_costs rt custs ?sc ?cm0 = Inr cm1"
    and fic: "add_fictitious rt (dict_keys cm1) cm1 = Inr cm"
    by (rule transform_Inr)
  from a obtain l where l: "l \<in> set locs" and al: "a = location l"
    by (auto simp add: oferta_keys)
  show ?thesis
  proof (cases "b = fictitious")
    case True
    with transform_fictitious [OF cm l] al show ?thesis by simp
  next
    case False
    with b obtain c where c: "c \<in> set custs" and bc: "b = client c"
      by (auto simp add: balance_keys demanda_keys)
    have "a \<in> set (dict_keys ?cm0)" using l al by (simp add: dict_of_keys image_image)
    from fill_costs_defined [OF fill c this] have "lookup2 cm1 a b \<noteq> None" by (simp add: bc)
    with add_fictitious_Inr(3) [OF fic False, of a] show ?thesis by simp
  qed
qed

lemma collect_succeeds:
  "(\<And>p. p \<in> set ps \<Longrightarrow> \<exists>t. f p = Inr t) \<Longrightarrow> \<exists>ts. collect (map f ps) = Inr ts"
proof (induction ps)
  case Nil
  then show ?case by simp
next
  case (Cons p ps)
  from Cons.prems [of p] obtain t where t: "f p = Inr t" by auto
  from Cons.IH Cons.prems obtain ts where "collect (map f ps) = Inr ts" by auto
  with t show ?case by simp
qed

lemma get_cost_defined:
  "lookup2 costos (fst p) (snd p) \<noteq> None \<Longrightarrow> \<exists>t. get_cost costos p = Inr t"
  by (auto simp add: lookup2_def get_cost_def split: option.splits)

lemma build_problem_succeeds:
  assumes "\<And>a b. a \<in> set (dict_keys oferta) \<Longrightarrow> b \<in> set (dict_keys demanda) \<Longrightarrow>
             lookup2 costos a b \<noteq> None"
  shows "\<exists>modelo. build_problem costos oferta demanda = Inr modelo \<and>
           constraints modelo =
             map (supply_constraint demanda) oferta @ map (demand_constraint oferta) demanda"
proof -
  have "\<exists>ts. collect (map (get_cost costos) (List.product (dict_keys oferta) (dict_keys demanda)))
          = Inr ts"
  proof (rule collect_succeeds)
    fix p
    assume "p \<in> set (List.product (dict_keys oferta) (dict_keys demanda))"
    then have "fst p \<in> set (dict_keys oferta)" and "snd p \<in> set (dict_keys demanda)"
      by auto
    then have "lookup2 costos (fst p) (snd p) \<noteq> None" by (rule assms)
    then show "\<exists>t. get_cost costos p = Inr t" by (rule get_cost_defined)
  qed
  then show ?thesis by (auto simp add: build_problem_def Let_def)
qed

lemma solve_transportation_Inr:
  assumes "solve_transportation rt solver data = Inr resp"
  obtains costos modelo out where
    "transform_data_to_cost_matrix rt (customers data) (locations data) = Inr costos"
    and "build_problem costos (oferta_of (locations data))
           (balance (oferta_of (locations data)) (demanda_of (customers data))) = Inr modelo"
    and "solver modelo = Inr out"
    and "resp = \<lparr>status = LpStatus (out_status out),
                 matrix = result_matrix rt out (oferta_of (locations data))
                   (balance (oferta_of (locations data)) (demanda_of (customers data))),
                 total_cost = objective_value out\<rparr>"
  using assms by (auto simp add: solve_transportation_def Let_def split: sum.splits)

lemma update_member: "(k, v) \<in> set (AList.update k v al)"
  by (induction al) auto

text \<open>The terms of the objective: one for each variable, with its entry of the cost matrix.\<close>

lemma get_cost_Inr:
  "get_cost costos p = Inr t \<Longrightarrow> fst t = p \<and> lookup2 costos (fst p) (snd p) = Some (snd t)"
  by (auto simp add: get_cost_def lookup2_def split: option.splits)

lemma collect_get_cost:
  "collect (map (get_cost costos) ps) = Inr ts \<Longrightarrow>
   map fst ts = ps \<and> (\<forall>t\<in>set ts. lookup2 costos (fst (fst t)) (snd (fst t)) = Some (snd t))"
proof (induction ps arbitrary: ts)
  case Nil
  then show ?case by simp
next
  case (Cons p ps)
  from Cons.prems obtain t ts' where t: "get_cost costos p = Inr t"
    and rest: "collect (map (get_cost costos) ps) = Inr ts'" and ts: "ts = t # ts'"
    by (auto split: sum.splits)
  from get_cost_Inr [OF t] Cons.IH [OF rest] ts show ?case by simp
qed

lemma build_problem_Inr:
  assumes "build_problem costos oferta demanda = Inr modelo"
  shows "variables modelo = List.product (dict_keys oferta) (dict_keys demanda)"
    and "map fst (objective modelo) = List.product (dict_keys oferta) (dict_keys demanda)"
    and "\<forall>t\<in>set (objective modelo). lookup2 costos (fst (fst t)) (snd (fst t)) = Some (snd t)"
    and "constraints modelo =
           map (supply_constraint demanda) oferta @ map (demand_constraint oferta) demanda"
proof -
  from assms obtain ts where
    ts: "collect (map (get_cost costos) (List.product (dict_keys oferta) (dict_keys demanda))) = Inr ts"
    and modelo: "modelo = \<lparr>variables = List.product (dict_keys oferta) (dict_keys demanda),
        objective = ts,
        constraints = map (supply_constraint demanda) oferta @ map (demand_constraint oferta) demanda\<rparr>"
    by (auto simp add: build_problem_def Let_def split: sum.splits)
  from modelo show "variables modelo = List.product (dict_keys oferta) (dict_keys demanda)"
    by simp
  from modelo show "constraints modelo =
      map (supply_constraint demanda) oferta @ map (demand_constraint oferta) demanda"
    by simp
  from collect_get_cost [OF ts] modelo
  show "map fst (objective modelo) = List.product (dict_keys oferta) (dict_keys demanda)"
    and "\<forall>t\<in>set (objective modelo). lookup2 costos (fst (fst t)) (snd (fst t)) = Some (snd t)"
    by simp_all
qed

lemma objective_term:
  assumes "build_problem costos oferta demanda = Inr modelo"
    and "a \<in> set (dict_keys oferta)" and "b \<in> set (dict_keys demanda)"
    and "lookup2 costos a b = Some k"
  shows "((a, b), k) \<in> set (objective modelo)"
proof -
  from assms(2,3) have "(a, b) \<in> set (map fst (objective modelo))"
    by (simp add: build_problem_Inr(2) [OF assms(1)])
  then obtain t where t: "t \<in> set (objective modelo)" and p: "fst t = (a, b)" by auto
  with build_problem_Inr(3) [OF assms(1)] assms(4) have "snd t = k" by auto
  with t p show ?thesis by (metis prod.collapse)
qed

text \<open>The handler, read as: state the programme, call the library, assemble the response.\<close>

lemma solve_via_posed:
  "solve_transportation rt solver data =
     (case posed_problem rt data of
        Inl e \<Rightarrow> Inl (HTTPException 500 e)
      | Inr modelo \<Rightarrow>
          (case solver modelo of
             Inl e \<Rightarrow> Inl (HTTPException 500 e)
           | Inr out \<Rightarrow>
               Inr \<lparr>status = LpStatus (out_status out),
                       matrix = result_matrix rt out (oferta_of (locations data))
                         (balance (oferta_of (locations data)) (demanda_of (customers data))),
                       total_cost = objective_value out\<rparr>))"
  by (simp add: solve_transportation_def posed_problem_def Let_def split: sum.splits)


lemma posed_problem_built:
  assumes "transform_data_to_cost_matrix rt (customers data) (locations data) = Inr costos"
  shows "\<exists>modelo. posed_problem rt data = Inr modelo \<and>
           build_problem costos (oferta_of (locations data))
             (balance (oferta_of (locations data)) (demanda_of (customers data))) = Inr modelo"
proof -
  have "\<exists>modelo. build_problem costos (oferta_of (locations data))
          (balance (oferta_of (locations data)) (demanda_of (customers data))) = Inr modelo \<and>
        constraints modelo =
          map (supply_constraint (balance (oferta_of (locations data)) (demanda_of (customers data))))
            (oferta_of (locations data))
          @ map (demand_constraint (oferta_of (locations data)))
              (balance (oferta_of (locations data)) (demanda_of (customers data)))"
    by (rule build_problem_succeeds) (rule transform_defined [OF assms])
  then show ?thesis by (auto simp add: posed_problem_def assms)
qed

section \<open>Demand in excess of supply\<close>

text \<open>
  C1, as amended. When the total of the demand vector exceeds the total of the supply vector
  and the cost matrix is built, the handler raises nothing of its own. The fictitious
  customer receives as its demand the total supply minus the total demand, a negative
  number; the programme is stated with the equality constraint for that demand and handed
  to the library; and the handler returns the status, matrix and objective the library
  reports. It fails only where the library raises.
\<close>

theorem excess_demand_is_solved:
  assumes over: "sum_list (dict_values (oferta_of (locations data)))
                 < sum_list (dict_values (demanda_of (customers data)))"
    and cm: "transform_data_to_cost_matrix rt (customers data) (locations data) = Inr costos"
  shows "\<exists>modelo.
           posed_problem rt data = Inr modelo \<and>
           sum_list (dict_values (oferta_of (locations data)))
             - sum_list (dict_values (demanda_of (customers data))) < 0 \<and>
           map_of (balance (oferta_of (locations data)) (demanda_of (customers data))) fictitious =
             Some (sum_list (dict_values (oferta_of (locations data)))
                   - sum_list (dict_values (demanda_of (customers data)))) \<and>
           demand_constraint (oferta_of (locations data))
             (fictitious, sum_list (dict_values (oferta_of (locations data)))
                          - sum_list (dict_values (demanda_of (customers data))))
             \<in> set (constraints modelo) \<and>
           solve_transportation rt solver data =
             (case solver modelo of
                Inl e \<Rightarrow> Inl (HTTPException 500 e)
              | Inr out \<Rightarrow>
                  Inr \<lparr>status = LpStatus (out_status out),
                       matrix = result_matrix rt out (oferta_of (locations data))
                         (balance (oferta_of (locations data)) (demanda_of (customers data))),
                       total_cost = objective_value out\<rparr>)"
proof -
  let ?oferta = "oferta_of (locations data)"
  let ?demanda = "balance ?oferta (demanda_of (customers data))"
  let ?surplus = "sum_list (dict_values ?oferta) - sum_list (dict_values (demanda_of (customers data)))"
  from posed_problem_built [OF cm] obtain modelo where
    posed: "posed_problem rt data = Inr modelo"
    and built: "build_problem costos ?oferta ?demanda = Inr modelo"
    by blast
  have "(fictitious, ?surplus) \<in> set ?demanda"
    unfolding balance_def by (rule update_member)
  then have member: "demand_constraint ?oferta (fictitious, ?surplus) \<in> set (constraints modelo)"
    by (simp add: build_problem_Inr(4) [OF built])
  have run: "solve_transportation rt solver data =
             (case solver modelo of
                Inl e \<Rightarrow> Inl (HTTPException 500 e)
              | Inr out \<Rightarrow>
                  Inr \<lparr>status = LpStatus (out_status out),
                       matrix = result_matrix rt out ?oferta ?demanda,
                       total_cost = objective_value out\<rparr>)"
    by (simp add: solve_via_posed posed)
  from over have "?surplus < 0" by simp
  with posed member run balance_fictitious [of ?oferta "demanda_of (customers data)"]
  show ?thesis by blast
qed

section \<open>Sample runs\<close>

lemma small_transform:
  "transform_data_to_cost_matrix exact_runtime (customers small_request) (locations small_request) =
     Inr [(''Cleveland'', [(''Acme'', 5), (''Cliente fic.'', 0)])]"
  by (simp add: small_request_def customer_of_def location_of_def
      transform_data_to_cost_matrix_def dict_of_def dict_keys_def adjusted_cost_def
      getattr_def set_item_def fictitious_def exact_runtime_def)

lemma small_vectors:
  "oferta_of (locations small_request) = [(''Cleveland'', 100)]"
  "demanda_of (customers small_request) = [(''Acme'', 80)]"
  "balance [(''Cleveland'', 100)] [(''Acme'', 80)] = [(''Acme'', 80), (''Cliente fic.'', 20)]"
  by (simp_all add: small_request_def customer_of_def location_of_def oferta_of_def
      demanda_of_def balance_def dict_of_def dict_values_def fictitious_def)

lemma small_posed:
  "posed_problem exact_runtime small_request =
     Inr \<lparr>variables = [(''Cleveland'', ''Acme''), (''Cleveland'', ''Cliente fic.'')],
          objective = [((''Cleveland'', ''Acme''), 5), ((''Cleveland'', ''Cliente fic.''), 0)],
          constraints =
            [\<lparr>cname = ''Oferta_Cleveland'',
              lhs = [(''Cleveland'', ''Acme''), (''Cleveland'', ''Cliente fic.'')],
              sense = LpLE, rhs = 100\<rparr>,
             \<lparr>cname = ''Demanda_Acme'', lhs = [(''Cleveland'', ''Acme'')],
              sense = LpEQ, rhs = 80\<rparr>,
             \<lparr>cname = ''Demanda_Cliente fic.'', lhs = [(''Cleveland'', ''Cliente fic.'')],
              sense = LpEQ, rhs = 20\<rparr>]\<rparr>"
  by (simp add: posed_problem_def small_transform small_vectors build_problem_def get_cost_def
      dict_keys_def supply_constraint_def demand_constraint_def Let_def)

lemma small_matrix:
  "result_matrix exact_runtime small_outcome [(''Cleveland'', 100)]
     [(''Acme'', 80), (''Cliente fic.'', 20)] =
     [[(''CLIENTE'', PStr ''Acme''), (''Cleveland'', PNum (PyFloat 80)),
       (''DEMANDA'', PNum (PyFloat 80))],
      [(''CLIENTE'', PStr ''Cliente fic.''), (''Cleveland'', PNum (PyFloat 20)),
       (''DEMANDA'', PNum (PyFloat 20))],
      [(''CLIENTE'', PStr ''CAPACIDAD''), (''Cleveland'', PNum (PyInt 100)),
       (''DEMANDA'', PStr ''100 / 100'')]]"
  by (simp add: result_matrix_def client_row_def capacity_row_def shipped_def small_outcome_def
      dict_keys_def dict_values_def str_int_def digits.simps exact_runtime_def)

lemma small_run:
  "solve_transportation exact_runtime (fixed_outcome small_outcome) small_request =
     Inr \<lparr>status = ''Optimal'',
          matrix =
            [[(''CLIENTE'', PStr ''Acme''), (''Cleveland'', PNum (PyFloat 80)),
              (''DEMANDA'', PNum (PyFloat 80))],
             [(''CLIENTE'', PStr ''Cliente fic.''), (''Cleveland'', PNum (PyFloat 20)),
              (''DEMANDA'', PNum (PyFloat 20))],
             [(''CLIENTE'', PStr ''CAPACIDAD''), (''Cleveland'', PNum (PyInt 100)),
              (''DEMANDA'', PStr ''100 / 100'')]],
          total_cost = Some 400\<rparr>"
  by (simp add: solve_via_posed small_posed small_vectors small_matrix fixed_outcome_def)
     (simp add: small_outcome_def)

lemma excess_transform:
  "transform_data_to_cost_matrix exact_runtime (customers excess_request) (locations excess_request) =
     Inr [(''Cleveland'', [(''Acme'', 5), (''Cliente fic.'', 0)])]"
  by (simp add: excess_request_def customer_of_def location_of_def
      transform_data_to_cost_matrix_def dict_of_def dict_keys_def adjusted_cost_def
      getattr_def set_item_def fictitious_def exact_runtime_def)

lemma excess_vectors:
  "oferta_of (locations excess_request) = [(''Cleveland'', 10)]"
  "demanda_of (customers excess_request) = [(''Acme'', 30)]"
  "balance [(''Cleveland'', 10)] [(''Acme'', 30)] = [(''Acme'', 30), (''Cliente fic.'', - 20)]"
  by (simp_all add: excess_request_def customer_of_def location_of_def oferta_of_def
      demanda_of_def balance_def dict_of_def dict_values_def fictitious_def)

lemma excess_posed:
  "posed_problem exact_runtime excess_request =
     Inr \<lparr>variables = [(''Cleveland'', ''Acme''), (''Cleveland'', ''Cliente fic.'')],
          objective = [((''Cleveland'', ''Acme''), 5), ((''Cleveland'', ''Cliente fic.''), 0)],
          constraints =
            [\<lparr>cname = ''Oferta_Cleveland'',
              lhs = [(''Cleveland'', ''Acme''), (''Cleveland'', ''Cliente fic.'')],
              sense = LpLE, rhs = 10\<rparr>,
             \<lparr>cname = ''Demanda_Acme'', lhs = [(''Cleveland'', ''Acme'')],
              sense = LpEQ, rhs = 30\<rparr>,
             \<lparr>cname = ''Demanda_Cliente fic.'', lhs = [(''Cleveland'', ''Cliente fic.'')],
              sense = LpEQ, rhs = - 20\<rparr>]\<rparr>"
  by (simp add: posed_problem_def excess_transform excess_vectors build_problem_def get_cost_def
      dict_keys_def supply_constraint_def demand_constraint_def Let_def)

lemma excess_matrix:
  "result_matrix exact_runtime excess_outcome [(''Cleveland'', 10)]
     [(''Acme'', 30), (''Cliente fic.'', - 20)] =
     [[(''CLIENTE'', PStr ''Acme''), (''Cleveland'', PNum (PyFloat 30)),
       (''DEMANDA'', PNum (PyFloat 30))],
      [(''CLIENTE'', PStr ''Cliente fic.''), (''Cleveland'', PNum (PyInt 0)),
       (''DEMANDA'', PNum (PyInt 0))],
      [(''CLIENTE'', PStr ''CAPACIDAD''), (''Cleveland'', PNum (PyInt 10)),
       (''DEMANDA'', PStr ''10 / 10'')]]"
  by (simp add: result_matrix_def client_row_def capacity_row_def shipped_def
      excess_outcome_def dict_keys_def dict_values_def str_int_def digits.simps exact_runtime_def)

text \<open>
  The request with demand 30 against capacity 10 is carried through to the library, whose
  status the response repeats.
\<close>

theorem excess_demand_is_solved_witness:
  "sum_list (dict_values (oferta_of (locations excess_request)))
     < sum_list (dict_values (demanda_of (customers excess_request))) \<and>
   transform_data_to_cost_matrix exact_runtime (customers excess_request) (locations excess_request) =
     Inr [(''Cleveland'', [(''Acme'', 5), (''Cliente fic.'', 0)])] \<and>
   map_of (balance (oferta_of (locations excess_request)) (demanda_of (customers excess_request)))
     fictitious = Some (- 20) \<and>
   map_sum id status
     (solve_transportation exact_runtime (fixed_outcome excess_outcome) excess_request) =
     Inr ''Infeasible''"
proof -
  have over: "sum_list (dict_values (oferta_of (locations excess_request)))
     < sum_list (dict_values (demanda_of (customers excess_request)))"
    by (simp add: excess_vectors dict_values_def)
  from excess_demand_is_solved [OF over excess_transform, of "fixed_outcome excess_outcome"]
  obtain modelo where
    dem: "map_of (balance (oferta_of (locations excess_request))
            (demanda_of (customers excess_request))) fictitious =
          Some (sum_list (dict_values (oferta_of (locations excess_request)))
                - sum_list (dict_values (demanda_of (customers excess_request))))"
    and run: "solve_transportation exact_runtime (fixed_outcome excess_outcome) excess_request =
       (case fixed_outcome excess_outcome modelo of
          Inl e \<Rightarrow> Inl (HTTPException 500 e)
        | Inr out \<Rightarrow>
            Inr \<lparr>status = LpStatus (out_status out),
                 matrix = result_matrix exact_runtime out (oferta_of (locations excess_request))
                   (balance (oferta_of (locations excess_request))
                      (demanda_of (customers excess_request))),
                 total_cost = objective_value out\<rparr>)"
    by blast
  from run have "map_sum id status
      (solve_transportation exact_runtime (fixed_outcome excess_outcome) excess_request) =
      Inr ''Infeasible''"
    by (simp add: fixed_outcome_def excess_outcome_def)
  moreover from dem have "map_of (balance (oferta_of (locations excess_request))
      (demanda_of (customers excess_request))) fictitious = Some (- 20)"
    by (simp add: excess_vectors dict_values_def)
  ultimately show ?thesis using over excess_transform by simp
qed

text \<open>
  C1 as the specification states it fails: no line of the handler compares demand with
  supply. For the request asking 30 of a capacity of 10 the handler states the constraint
  that the fictitious customer receives - 20, and answers with the status of the library,
  a full matrix and the objective, not with an error.
\<close>

theorem excess_demand_counterexample:
  "sum_list (map demand (customers excess_request)) = 30 \<and>
   sum_list (map Location.capacity (locations excess_request)) = 10 \<and>
   solve_transportation exact_runtime (fixed_outcome excess_outcome) excess_request =
     Inr \<lparr>status = ''Infeasible'',
          matrix =
            [[(''CLIENTE'', PStr ''Acme''), (''Cleveland'', PNum (PyFloat 30)),
              (''DEMANDA'', PNum (PyFloat 30))],
             [(''CLIENTE'', PStr ''Cliente fic.''), (''Cleveland'', PNum (PyInt 0)),
              (''DEMANDA'', PNum (PyInt 0))],
             [(''CLIENTE'', PStr ''CAPACIDAD''), (''Cleveland'', PNum (PyInt 10)),
              (''DEMANDA'', PStr ''10 / 10'')]],
          total_cost = Some 150\<rparr>"
proof -
  have "solve_transportation exact_runtime (fixed_outcome excess_outcome) excess_request =
     Inr \<lparr>status = ''Infeasible'',
          matrix = result_matrix exact_runtime excess_outcome [(''Cleveland'', 10)]
                     [(''Acme'', 30), (''Cliente fic.'', - 20)],
          total_cost = Some 150\<rparr>"
    by (simp add: solve_via_posed excess_posed excess_vectors fixed_outcome_def)
       (simp add: excess_outcome_def)
  then show ?thesis
    by (simp add: excess_matrix) (simp add: excess_request_def customer_of_def location_of_def)
qed

section \<open>The rows of the response\<close>

lemma client_cells_untouched:
  "k \<notin> set ks \<Longrightarrow> map_of (fst (client_cells rt out cliente ks acc)) k = map_of (fst acc) k"
  by (induction ks arbitrary: acc) (simp_all add: update_conv')

text \<open>A customer's row carries the customer's name unless a location is named \<^verbatim>\<open>CLIENTE\<close>.\<close>

lemma client_row_label:
  "''CLIENTE'' \<notin> set (dict_keys oferta) \<Longrightarrow>
   map_of (client_row rt out oferta cliente) ''CLIENTE'' = Some (PStr cliente)"
  by (simp add: client_row_def Let_def update_conv' client_cells_untouched)

text \<open>
  C2, as amended. The matrix of a response has one row for each key of the balanced demand
  vector, in the order of the vector, followed by the capacity row. The keys are the distinct
  customer identifiers together with the name of the fictitious customer, so the fictitious
  customer has a row of its own.
\<close>

theorem matrix_rows:
  assumes "solve_transportation rt solver data = Inr resp"
  shows "(\<exists>out. matrix resp =
            map (client_row rt out (oferta_of (locations data)))
              (dict_keys (balance (oferta_of (locations data)) (demanda_of (customers data))))
            @ [capacity_row (oferta_of (locations data))
                 (balance (oferta_of (locations data)) (demanda_of (customers data)))]) \<and>
         distinct (dict_keys (balance (oferta_of (locations data)) (demanda_of (customers data)))) \<and>
         set (dict_keys (balance (oferta_of (locations data)) (demanda_of (customers data)))) =
           insert fictitious (client ` set (customers data)) \<and>
         length (matrix resp) = card (insert fictitious (client ` set (customers data))) + 1"
proof -
  let ?oferta = "oferta_of (locations data)"
  let ?demanda = "balance ?oferta (demanda_of (customers data))"
  from assms obtain out where
    resp: "resp = \<lparr>status = LpStatus (out_status out),
                    matrix = result_matrix rt out ?oferta ?demanda,
                    total_cost = objective_value out\<rparr>"
    by (rule solve_transportation_Inr)
  then have rows: "matrix resp =
      map (client_row rt out ?oferta) (dict_keys ?demanda) @ [capacity_row ?oferta ?demanda]"
    by (simp add: result_matrix_def)
  have d: "distinct (dict_keys ?demanda)"
    by (rule balance_keys_distinct) (simp add: demanda_of_def dict_of_keys_distinct)
  have k: "set (dict_keys ?demanda) = insert fictitious (client ` set (customers data))"
    by (simp add: balance_keys demanda_keys)
  have "length (dict_keys ?demanda) = card (set (dict_keys ?demanda))"
    using d by (simp add: distinct_card)
  with rows k have "length (matrix resp) = card (insert fictitious (client ` set (customers data))) + 1"
    by simp
  with rows d k show ?thesis by blast
qed

theorem matrix_rows_witness:
  "map_sum id (\<lambda>r. length (matrix r))
     (solve_transportation exact_runtime (fixed_outcome small_outcome) small_request) =
   Inr (card (insert fictitious (client ` set (customers small_request))) + 1) \<and>
   card (insert fictitious (client ` set (customers small_request))) = 2"
proof -
  have "card (insert fictitious (client ` set (customers small_request))) = 2"
    by (simp add: small_request_def customer_of_def fictitious_def)
  with matrix_rows [OF small_run] show ?thesis by (simp add: small_run)
qed

text \<open>
  C2 as the specification states it fails on every response: the loop of line 102 runs over
  the whole demand vector, fictitious entry included. The request below has one customer and
  its matrix has three rows.
\<close>

theorem matrix_rows_counterexample:
  "length (customers small_request) = 1 \<and>
   map_sum id (\<lambda>r. map (\<lambda>row. map_of row ''CLIENTE'') (matrix r))
     (solve_transportation exact_runtime (fixed_outcome small_outcome) small_request) =
   Inr [Some (PStr ''Acme''), Some (PStr ''Cliente fic.''), Some (PStr ''CAPACIDAD'')]"
  by (simp add: small_run) (simp add: small_request_def)

section \<open>The capacity row\<close>

lemma capacity_cells_total:
  "snd (capacity_cells oferta acc) = snd acc + sum_list (dict_values oferta)"
  by (induction oferta arbitrary: acc) (simp_all add: dict_values_def)

lemma capacity_row_label:
  "map_of (capacity_row oferta demanda) ''DEMANDA'' =
     Some (PStr (str_int (sum_list (dict_values oferta)) @ '' / ''
                 @ str_int (sum_list (dict_values demanda))))"
  by (simp add: capacity_row_def Let_def update_conv' capacity_cells_total)

text \<open>
  C6, as amended. The last row of the matrix of a response has under \<^verbatim>\<open>DEMANDA\<close> the label
  made of the total capacity and the total of the balanced demand vector, fictitious entry
  included. That second number is the total capacity less the demand submitted under the
  name of the fictitious customer, if any: without such a customer the label shows the total
  capacity twice.
\<close>

theorem capacity_label:
  assumes "solve_transportation rt solver data = Inr resp"
  shows "map_of (last (matrix resp)) ''DEMANDA'' =
           Some (PStr (str_int (sum_list (dict_values (oferta_of (locations data)))) @ '' / ''
                       @ str_int (sum_list (dict_values
                            (balance (oferta_of (locations data))
                               (demanda_of (customers data))))))) \<and>
         sum_list (dict_values (balance (oferta_of (locations data)) (demanda_of (customers data)))) =
           sum_list (dict_values (oferta_of (locations data)))
           - (case map_of (demanda_of (customers data)) fictitious of None \<Rightarrow> 0 | Some d \<Rightarrow> d)"
proof -
  let ?oferta = "oferta_of (locations data)"
  let ?demanda = "balance ?oferta (demanda_of (customers data))"
  from assms obtain out where
    resp: "resp = \<lparr>status = LpStatus (out_status out),
                    matrix = result_matrix rt out ?oferta ?demanda,
                    total_cost = objective_value out\<rparr>"
    by (rule solve_transportation_Inr)
  then have "last (matrix resp) = capacity_row ?oferta ?demanda"
    by (simp add: result_matrix_def)
  then show ?thesis by (simp add: capacity_row_label balance_total)
qed

theorem capacity_label_witness:
  "map_sum id (\<lambda>r. map_of (last (matrix r)) ''DEMANDA'')
     (solve_transportation exact_runtime (fixed_outcome small_outcome) small_request) =
   Inr (Some (PStr (str_int 100 @ '' / '' @ str_int 100)))"
proof -
  have "sum_list (dict_values (oferta_of (locations small_request))) = 100"
    and "sum_list (dict_values (balance (oferta_of (locations small_request))
           (demanda_of (customers small_request)))) = 100"
    by (simp_all add: small_vectors dict_values_def)
  with capacity_label [OF small_run] show ?thesis by (simp add: small_run)
qed

text \<open>
  C6 as the specification states it fails whenever supply and real demand differ: line 118
  sums the demand vector after line 74 has added the fictitious entry. The customers of the
  request below ask for 80 in total and the label reads 100 / 100.
\<close>

theorem capacity_label_counterexample:
  "sum_list (map demand (customers small_request)) = 80 \<and>
   map_sum id (\<lambda>r. map_of (last (matrix r)) ''DEMANDA'')
     (solve_transportation exact_runtime (fixed_outcome small_outcome) small_request) =
   Inr (Some (PStr ''100 / 100''))"
  by (simp add: small_run) (simp add: small_request_def customer_of_def)

section \<open>Inputs the handler does not read\<close>

lemma map_pair_zip: "map (\<lambda>x. (f x, g x)) xs = zip (map f xs) (map g xs)"
  by (induction xs) simp_all

text \<open>
  C9. Two requests with the same customers and with locations that agree in identifier,
  capacity and shipping cost get the same answer from the handler, whatever their
  \<^verbatim>\<open>validCombinations\<close> and \<^verbatim>\<open>generalCost\<close> values, for every behaviour of the library
  that is a function of the programme.
\<close>

theorem unused_inputs:
  fixes rt :: "'f runtime"
  assumes "customers d1 = customers d2"
    and "map location (locations d1) = map location (locations d2)"
    and "map Location.capacity (locations d1) = map Location.capacity (locations d2)"
    and "map shippingCost (locations d1) = map shippingCost (locations d2)"
  shows "solve_transportation rt solver d1 = solve_transportation rt solver d2"
proof -
  have ships: "map (\<lambda>loc. (location loc, shippingCost loc)) (locations d1) =
               map (\<lambda>loc. (location loc, shippingCost loc)) (locations d2)"
    by (simp add: map_pair_zip assms)
  have aux: "map (\<lambda>loc. (location loc, [] :: (string, 'f) dict)) ls =
             map (\<lambda>name. (name, [])) (map location ls)" for ls :: "'f Location list"
    by simp
  have empties: "map (\<lambda>loc. (location loc, [] :: (string, 'f) dict)) (locations d1) =
                 map (\<lambda>loc. (location loc, [])) (locations d2)"
    unfolding aux assms(2) ..
  have costos: "transform_data_to_cost_matrix rt custs (locations d1) =
                transform_data_to_cost_matrix rt custs (locations d2)" for custs
    unfolding transform_data_to_cost_matrix_def ships empties ..
  have oferta: "oferta_of (locations d1) = oferta_of (locations d2)"
    by (simp add: oferta_of_def map_pair_zip assms)
  show ?thesis unfolding solve_transportation_def assms(1) costos oferta ..
qed

theorem unused_inputs_witness:
  "customers small_request = customers small_request_variant \<and>
   map location (locations small_request) = map location (locations small_request_variant) \<and>
   map Location.capacity (locations small_request) =
     map Location.capacity (locations small_request_variant) \<and>
   map shippingCost (locations small_request) = map shippingCost (locations small_request_variant) \<and>
   validCombinations small_request \<noteq> validCombinations small_request_variant \<and>
   map generalCost (locations small_request) \<noteq> map generalCost (locations small_request_variant) \<and>
   solve_transportation exact_runtime (fixed_outcome small_outcome) small_request =
     solve_transportation exact_runtime (fixed_outcome small_outcome) small_request_variant"
proof -
  have h: "customers small_request = customers small_request_variant"
    "map location (locations small_request) = map location (locations small_request_variant)"
    "map Location.capacity (locations small_request) =
       map Location.capacity (locations small_request_variant)"
    "map shippingCost (locations small_request) = map shippingCost (locations small_request_variant)"
    by (simp_all add: small_request_def small_request_variant_def location_of_def)
  have d: "validCombinations small_request \<noteq> validCombinations small_request_variant"
    "map generalCost (locations small_request) \<noteq> map generalCost (locations small_request_variant)"
    by (simp_all add: small_request_def small_request_variant_def location_of_def)
  from unused_inputs [OF h] h d show ?thesis by (intro conjI)
qed

section \<open>The allocation and the constraints\<close>


text \<open>
  As long as the running total of a row is an integer it is 0: the only integer that line
  108 ever converts to a float is 0.
\<close>

lemma client_cells_integer_total:
  "snd acc = PyInt 0 \<or> (\<exists>x. snd acc = PyFloat x) \<Longrightarrow>
   snd (client_cells rt out cliente ks acc) = PyInt 0 \<or>
   (\<exists>x. snd (client_cells rt out cliente ks acc) = PyFloat x)"
proof (induction ks arbitrary: acc)
  case Nil
  then show ?case by simp
next
  case (Cons almacen ks)
  have "shipped rt out almacen cliente = PyInt 0 \<or> (\<exists>v. shipped rt out almacen cliente = PyFloat v)"
    by (simp add: shipped_def split: option.split)
  with Cons.prems
  have "num_add rt (snd acc) (shipped rt out almacen cliente) = PyInt 0 \<or>
        (\<exists>x. num_add rt (snd acc) (shipped rt out almacen cliente) = PyFloat x)"
    by auto
  then show ?case by (simp add: Cons.IH)
qed




text \<open>
  With distinct identifiers, a customer who is not named like the fictitious one has its
  own entry, with its own demand, in the balanced demand vector.
\<close>

lemma customer_entry:
  assumes "distinct (map client custs)" and "c \<in> set custs" and "client c \<noteq> fictitious"
  shows "(client c, demand c) \<in> set (balance oferta (demanda_of custs))"
proof -
  have "demanda_of custs = map (\<lambda>customer. (client customer, demand customer)) custs"
    unfolding demanda_of_def by (rule dict_of_distinct) (simp add: assms(1) comp_def)
  with assms(2) have "map_of (demanda_of custs) (client c) = Some (demand c)"
    by (intro map_of_is_SomeI) (auto simp add: assms(1) comp_def)
  with assms(3) have "map_of (balance oferta (demanda_of custs)) (client c) = Some (demand c)"
    by (simp add: balance_def update_conv')
  then show ?thesis by (rule map_of_SomeD)
qed




section \<open>The total cost\<close>





section \<open>A customer named like the fictitious one\<close>

text \<open>
  C10, as amended. Take a request with distinct identifiers in which a customer is named
  like the fictitious one, and let the cost matrix be built. Then
  \<^item> line 74 adds no entry to the demand vector: its keys are the customers of the request;
  \<^item> the demand under the customer's name, which line 73 set to the demand submitted, is
    replaced by the total capacity minus the total demand of all customers;
  \<^item> the entry of the cost matrix under the customer's name is \<^verbatim>\<open>0.0\<close> for every location,
    and that is the coefficient of the customer's variables in the objective;
  \<^item> the programme holds the equality constraint for the replaced demand, and the handler
    answers with what the library reports for that programme, without any exception of its
    own.
  So the customer is served with the computed values, whatever was submitted.
\<close>

theorem fictitious_name_overwritten:
  assumes c: "c \<in> set (customers data)" and name: "client c = fictitious"
    and dc: "distinct (map client (customers data))"
    and dl: "distinct (map location (locations data))"
    and cm: "transform_data_to_cost_matrix rt (customers data) (locations data) = Inr costos"
  shows "\<exists>modelo.
           posed_problem rt data = Inr modelo \<and>
           dict_keys (balance (oferta_of (locations data)) (demanda_of (customers data))) =
             map client (customers data) \<and>
           map_of (demanda_of (customers data)) (client c) = Some (demand c) \<and>
           map_of (balance (oferta_of (locations data)) (demanda_of (customers data))) (client c) =
             Some (sum_list (map Location.capacity (locations data))
                   - sum_list (map demand (customers data))) \<and>
           (\<forall>l\<in>set (locations data).
              lookup2 costos (location l) (client c) = Some (fzero rt) \<and>
              ((location l, client c), fzero rt) \<in> set (objective modelo)) \<and>
           demand_constraint (oferta_of (locations data))
             (client c, sum_list (map Location.capacity (locations data))
                        - sum_list (map demand (customers data)))
             \<in> set (constraints modelo) \<and>
           solve_transportation rt solver data =
             (case solver modelo of
                Inl e \<Rightarrow> Inl (HTTPException 500 e)
              | Inr out \<Rightarrow>
                  Inr \<lparr>status = LpStatus (out_status out),
                       matrix = result_matrix rt out (oferta_of (locations data))
                         (balance (oferta_of (locations data)) (demanda_of (customers data))),
                       total_cost = objective_value out\<rparr>)"
proof -
  let ?oferta = "oferta_of (locations data)"
  let ?d0 = "demanda_of (customers data)"
  let ?demanda = "balance ?oferta ?d0"
  let ?surplus = "sum_list (map Location.capacity (locations data))
                  - sum_list (map demand (customers data))"
  from posed_problem_built [OF cm] obtain modelo where
    posed: "posed_problem rt data = Inr modelo"
    and built: "build_problem costos ?oferta ?demanda = Inr modelo"
    by blast
  have d0: "?d0 = map (\<lambda>customer. (client customer, demand customer)) (customers data)"
    unfolding demanda_of_def by (rule dict_of_distinct) (simp add: dc comp_def)
  have keys0: "dict_keys ?d0 = map client (customers data)"
    by (simp add: d0 dict_keys_def comp_def)
  have fst0: "map fst ?d0 = map client (customers data)"
    by (simp add: d0 comp_def)
  have "set (map fst ?d0) = client ` set (customers data)"
    unfolding fst0 by simp
  moreover from c name have "fictitious \<in> client ` set (customers data)"
    by (metis imageI)
  ultimately have member: "fictitious \<in> set (map fst ?d0)" by simp
  have "map fst ?demanda = map fst ?d0"
    unfolding balance_def using member by (simp only: update_keys if_True)
  then have keys: "dict_keys ?demanda = map client (customers data)"
    by (simp only: dict_keys_def fst0)
  have submitted: "map_of ?d0 (client c) = Some (demand c)"
    unfolding d0 by (rule map_of_is_SomeI) (use c dc in \<open>auto simp add: comp_def\<close>)
  have surplus: "sum_list (dict_values ?oferta) - sum_list (dict_values ?d0) = ?surplus"
    by (simp add: oferta_total [OF dl] demanda_total [OF dc])
  have replaced: "map_of ?demanda (client c) = Some ?surplus"
    using balance_fictitious [of ?oferta ?d0] by (simp add: name surplus)
  have "(fictitious, sum_list (dict_values ?oferta) - sum_list (dict_values ?d0)) \<in> set ?demanda"
    unfolding balance_def by (rule update_member)
  then have constraint: "demand_constraint ?oferta (client c, ?surplus) \<in> set (constraints modelo)"
    by (simp add: build_problem_Inr(4) [OF built] name surplus)
  have costs: "lookup2 costos (location l) (client c) = Some (fzero rt) \<and>
               ((location l, client c), fzero rt) \<in> set (objective modelo)"
    if l: "l \<in> set (locations data)" for l
  proof -
    have zero: "lookup2 costos (location l) (client c) = Some (fzero rt)"
      using transform_fictitious [OF cm l] by (simp add: name)
    have a: "location l \<in> set (dict_keys ?oferta)" using l by (simp add: oferta_keys)
    have b: "client c \<in> set (dict_keys ?demanda)" using c by (simp add: keys)
    from objective_term [OF built a b zero] zero show ?thesis by simp
  qed
  have run: "solve_transportation rt solver data =
             (case solver modelo of
                Inl e \<Rightarrow> Inl (HTTPException 500 e)
              | Inr out \<Rightarrow>
                  Inr \<lparr>status = LpStatus (out_status out),
                       matrix = result_matrix rt out ?oferta ?demanda,
                       total_cost = objective_value out\<rparr>)"
    by (simp add: solve_via_posed posed)
  from posed keys submitted replaced costs constraint run show ?thesis by blast
qed

lemma clash_transform:
  "transform_data_to_cost_matrix exact_runtime (customers clash_request) (locations clash_request) =
     Inr [(''Cleveland'', [(''Cliente fic.'', 0)])]"
  by (simp add: clash_request_def customer_of_def location_of_def
      transform_data_to_cost_matrix_def dict_of_def dict_keys_def adjusted_cost_def
      getattr_def set_item_def fictitious_def exact_runtime_def)

theorem fictitious_name_overwritten_witness:
  "hd (customers clash_request) \<in> set (customers clash_request) \<and>
   client (hd (customers clash_request)) = fictitious \<and>
   distinct (map client (customers clash_request)) \<and>
   distinct (map location (locations clash_request)) \<and>
   Cleveland (hd (customers clash_request)) = 4 \<and>
   demand (hd (customers clash_request)) = 3 \<and>
   map_of (demanda_of (customers clash_request)) ''Cliente fic.'' = Some 3 \<and>
   map_of (balance (oferta_of (locations clash_request)) (demanda_of (customers clash_request)))
     ''Cliente fic.'' = Some 7 \<and>
   lookup2 [(''Cleveland'', [(''Cliente fic.'', 0 :: real)])] ''Cleveland'' ''Cliente fic.'' = Some 0"
proof -
  have h1: "hd (customers clash_request) \<in> set (customers clash_request)"
    by (simp add: clash_request_def)
  have h2: "client (hd (customers clash_request)) = fictitious"
    by (simp add: clash_request_def customer_of_def fictitious_def)
  have h3: "distinct (map client (customers clash_request))"
    by (simp add: clash_request_def)
  have h4: "distinct (map location (locations clash_request))"
    by (simp add: clash_request_def)
  have vals: "Cleveland (hd (customers clash_request)) = 4"
    "demand (hd (customers clash_request)) = 3"
    by (simp_all add: clash_request_def customer_of_def)
  have sums: "sum_list (map Location.capacity (locations clash_request)) = 10"
    "sum_list (map demand (customers clash_request)) = 3"
    by (simp_all add: clash_request_def customer_of_def location_of_def)
  have l: "location_of ''Cleveland'' 10 1 0 \<in> set (locations clash_request)"
    by (simp add: clash_request_def)
  from fictitious_name_overwritten [OF h1 h2 h3 h4 clash_transform]
  obtain modelo :: "real lp_problem" where
    submitted: "map_of (demanda_of (customers clash_request)) (client (hd (customers clash_request)))
       = Some (demand (hd (customers clash_request)))"
    and replaced: "map_of (balance (oferta_of (locations clash_request))
        (demanda_of (customers clash_request))) (client (hd (customers clash_request))) =
        Some (sum_list (map Location.capacity (locations clash_request))
              - sum_list (map demand (customers clash_request)))"
    and costs: "\<forall>l\<in>set (locations clash_request).
        lookup2 [(''Cleveland'', [(''Cliente fic.'', 0)])] (location l)
          (client (hd (customers clash_request))) = Some (fzero exact_runtime) \<and>
        ((location l, client (hd (customers clash_request))), fzero exact_runtime)
          \<in> set (objective modelo)"
    by blast
  from submitted have a: "map_of (demanda_of (customers clash_request)) ''Cliente fic.'' = Some 3"
    by (simp add: h2 vals fictitious_def)
  from replaced have b: "map_of (balance (oferta_of (locations clash_request))
      (demanda_of (customers clash_request))) ''Cliente fic.'' = Some 7"
    by (simp add: h2 sums fictitious_def)
  from bspec [OF costs l]
  have e: "lookup2 [(''Cleveland'', [(''Cliente fic.'', 0 :: real)])] ''Cleveland'' ''Cliente fic.''
      = Some 0"
    by (simp add: h2 location_of_def fictitious_def exact_runtime_def)
  from h1 h2 h3 h4 vals a b e show ?thesis by (intro conjI)
qed

text \<open>
  C10 as stated fails in its last clause: the values computed can be the values submitted.
  The customer below is named like the fictitious one, pays nothing at a plant without
  shipping cost, and asks for 5 of a capacity of 10. Line 59 computes the cost 0 for it and
  line 73 the demand 5; the programme that the handler states has the coefficient 0 and
  the demand 5 for it, so that it is served as submitted.
\<close>

theorem fictitious_name_coincidence:
  "client (hd (customers coincide_request)) = ''Cliente fic.'' \<and>
   adjusted_cost exact_runtime (hd (customers coincide_request)) [(''Cleveland'', 0)] ''Cleveland'' =
     Inr 0 \<and>
   demanda_of (customers coincide_request) = [(''Cliente fic.'', 5)] \<and>
   posed_problem exact_runtime coincide_request =
     Inr \<lparr>variables = [(''Cleveland'', ''Cliente fic.'')],
          objective = [((''Cleveland'', ''Cliente fic.''), 0)],
          constraints =
            [\<lparr>cname = ''Oferta_Cleveland'', lhs = [(''Cleveland'', ''Cliente fic.'')],
              sense = LpLE, rhs = 10\<rparr>,
             \<lparr>cname = ''Demanda_Cliente fic.'', lhs = [(''Cleveland'', ''Cliente fic.'')],
              sense = LpEQ, rhs = 5\<rparr>]\<rparr>"
  by (simp add: posed_problem_def coincide_request_def customer_of_def location_of_def
      transform_data_to_cost_matrix_def dict_of_def dict_keys_def dict_values_def
      adjusted_cost_def getattr_def set_item_def fictitious_def exact_runtime_def
      oferta_of_def demanda_of_def balance_def build_problem_def get_cost_def
      supply_constraint_def demand_constraint_def Let_def)

end
